theory Spec2Isabelle
  imports Complex_Main
begin


section \<open>Python values\<close>

text \<open>
  The sales agent is a Python program: its strings are sequences of Unicode code points,
  and the attributes of its ORM rows hold dynamically typed values. A Python
  \<^verbatim>\<open>str\<close> is a list of code points; \<open>u\<close> embeds an ASCII literal. A value
  that the program stores, reads back from the interpretation service or tests for
  truthiness is a \<open>pyval\<close>.
\<close>

type_synonym ustring = "nat list"

definition u :: "string \<Rightarrow> ustring" where
  "u s = map of_char s"

datatype pyval =
    PNone
  | PBool bool
  | PInt int
  | PFloat real
  | PStr ustring
  | PList "pyval list"
  | PDict "(ustring \<times> pyval) list"
  | PDatetime nat

text \<open>Python truthiness, as \<^verbatim>\<open>if x:\<close> and \<^verbatim>\<open>x or y\<close> test it.\<close>

fun truthy :: "pyval \<Rightarrow> bool" where
  "truthy PNone = False"
| "truthy (PBool b) = b"
| "truthy (PInt i) = (i \<noteq> 0)"
| "truthy (PFloat r) = (r \<noteq> 0)"
| "truthy (PStr s) = (s \<noteq> [])"
| "truthy (PList xs) = (xs \<noteq> [])"
| "truthy (PDict kvs) = (kvs \<noteq> [])"
| "truthy (PDatetime t) = True"

definition py_or :: "pyval \<Rightarrow> pyval \<Rightarrow> pyval" where
  "py_or a b = (if truthy a then a else b)"

datatype error =
    AttributeError | TypeError | ValueError | IndexError | KeyError | OverflowError
  | InterfaceError | ApiError


section \<open>The conversation state (database.py)\<close>

text \<open>
  A row of \<^verbatim>\<open>conversation_states\<close>. Every column is an attribute of a Python
  object and holds a Python value: what was read from the table or, until the next
  commit, what was last assigned to it. The primary key
  \<^verbatim>\<open>id\<close> is the field \<open>cs_id\<close> and the column \<^verbatim>\<open>notes\<close> the field
  \<open>cs_notes\<close>.
\<close>

record ConversationState =
  cs_id :: pyval
  phone_number :: pyval
  current_step :: pyval
  selected_category_id :: pyval
  selected_type_id :: pyval
  selected_variant_id :: pyval
  selected_quantity :: pyval
  selected_accessories :: pyval
  customer_name :: pyval
  cs_notes :: pyval
  last_message :: pyval
  updated_at :: pyval

text \<open>The columns of the table, by name.\<close>

definition state_attrs :: "string list" where
  "state_attrs =
     [''id'', ''phone_number'', ''current_step'', ''selected_category_id'',
      ''selected_type_id'', ''selected_variant_id'', ''selected_quantity'',
      ''selected_accessories'', ''customer_name'', ''notes'', ''last_message'',
      ''updated_at'']"

text \<open>Reading and assigning a column by its name.\<close>

definition getattr :: "ConversationState \<Rightarrow> string \<Rightarrow> pyval option" where
  "getattr st key =
     (if key = ''id'' then Some (cs_id st)
      else if key = ''phone_number'' then Some (phone_number st)
      else if key = ''current_step'' then Some (current_step st)
      else if key = ''selected_category_id'' then Some (selected_category_id st)
      else if key = ''selected_type_id'' then Some (selected_type_id st)
      else if key = ''selected_variant_id'' then Some (selected_variant_id st)
      else if key = ''selected_quantity'' then Some (selected_quantity st)
      else if key = ''selected_accessories'' then Some (selected_accessories st)
      else if key = ''customer_name'' then Some (customer_name st)
      else if key = ''notes'' then Some (cs_notes st)
      else if key = ''last_message'' then Some (last_message st)
      else if key = ''updated_at'' then Some (updated_at st)
      else None)"

definition setattr :: "ConversationState \<Rightarrow> string \<Rightarrow> pyval \<Rightarrow> ConversationState" where
  "setattr st key v =
     (if key = ''id'' then st\<lparr>cs_id := v\<rparr>
      else if key = ''phone_number'' then st\<lparr>phone_number := v\<rparr>
      else if key = ''current_step'' then st\<lparr>current_step := v\<rparr>
      else if key = ''selected_category_id'' then st\<lparr>selected_category_id := v\<rparr>
      else if key = ''selected_type_id'' then st\<lparr>selected_type_id := v\<rparr>
      else if key = ''selected_variant_id'' then st\<lparr>selected_variant_id := v\<rparr>
      else if key = ''selected_quantity'' then st\<lparr>selected_quantity := v\<rparr>
      else if key = ''selected_accessories'' then st\<lparr>selected_accessories := v\<rparr>
      else if key = ''customer_name'' then st\<lparr>customer_name := v\<rparr>
      else if key = ''notes'' then st\<lparr>cs_notes := v\<rparr>
      else if key = ''last_message'' then st\<lparr>last_message := v\<rparr>
      else if key = ''updated_at'' then st\<lparr>updated_at := v\<rparr>
      else st)"


section \<open>String operations of the Python library\<close>

text \<open>
  \<^verbatim>\<open>str.strip()\<close> removes the leading and trailing characters for which
  \<^verbatim>\<open>str.isspace\<close> holds; these are their code points.
\<close>

definition is_space :: "nat \<Rightarrow> bool" where
  "is_space c =
     (c \<in> set [9, 10, 11, 12, 13, 28, 29, 30, 31, 32, 133, 160, 5760, 8192, 8193, 8194,
                8195, 8196, 8197, 8198, 8199, 8200, 8201, 8202, 8232, 8233, 8239, 8287,
                12288])"

definition strip :: "ustring \<Rightarrow> ustring" where
  "strip s = rev (dropWhile is_space (rev (dropWhile is_space s)))"

text \<open>\<^verbatim>\<open>sub in s\<close> on strings.\<close>

fun contains :: "ustring \<Rightarrow> ustring \<Rightarrow> bool" where
  "contains sub [] = (sub = [])"
| "contains sub (c # cs) = (take (length sub) (c # cs) = sub \<or> contains sub cs)"

text \<open>
  \<^verbatim>\<open>s.split(sep)\<close> for a separator that is not empty: the pieces between the
  occurrences of \<open>sep\<close>, found from the left without overlap. \<open>acc\<close> is the piece
  being read.
\<close>

fun split_str :: "ustring \<Rightarrow> ustring \<Rightarrow> ustring \<Rightarrow> ustring list" where
  "split_str sep acc [] = [acc]"
| "split_str sep acc (c # cs) =
     (if sep \<noteq> [] \<and> take (length sep) (c # cs) = sep
      then acc # split_str sep [] (drop (length sep) (c # cs))
      else split_str sep (acc @ [c]) cs)"

definition str_split :: "ustring \<Rightarrow> ustring \<Rightarrow> ustring list" where
  "str_split s sep = split_str sep [] s"

text \<open>\<^verbatim>\<open>"\n".join(lines)\<close>.\<close>

fun join_lines :: "ustring list \<Rightarrow> ustring" where
  "join_lines [] = []"
| "join_lines [x] = x"
| "join_lines (x # y # ys) = x @ [10] @ join_lines (y # ys)"

text \<open>The decimal text of an integer, as \<^verbatim>\<open>str\<close> and an f-string give it.\<close>

fun str_nat :: "nat \<Rightarrow> ustring" where
  "str_nat n = (if n < 10 then [48 + n] else str_nat (n div 10) @ [48 + n mod 10])"

definition str_int :: "int \<Rightarrow> ustring" where
  "str_int i = (if i < 0 then 45 # str_nat (nat (- i)) else str_nat (nat i))"

text \<open>A nullable string column in an f-string, and its truthiness.\<close>

definition fmt_opt :: "ustring option \<Rightarrow> ustring" where
  "fmt_opt x = (case x of None \<Rightarrow> u ''None'' | Some s \<Rightarrow> s)"

definition fmt_int_opt :: "int option \<Rightarrow> ustring" where
  "fmt_int_opt x = (case x of None \<Rightarrow> u ''None'' | Some i \<Rightarrow> str_int i)"

definition opt_truthy :: "ustring option \<Rightarrow> bool" where
  "opt_truthy x = (case x of None \<Rightarrow> False | Some s \<Rightarrow> s \<noteq> [])"

definition opt_str :: "ustring option \<Rightarrow> pyval" where
  "opt_str x = (case x of None \<Rightarrow> PNone | Some s \<Rightarrow> PStr s)"

definition opt_int :: "int option \<Rightarrow> pyval" where
  "opt_int x = (case x of None \<Rightarrow> PNone | Some i \<Rightarrow> PInt i)"

text \<open>\<^verbatim>\<open>f" ({x})" if x else ""\<close>.\<close>

definition paren_opt :: "ustring option \<Rightarrow> ustring" where
  "paren_opt x = (if opt_truthy x then u '' ('' @ fmt_opt x @ u '')'' else [])"

text \<open>\<^verbatim>\<open>d.get(key)\<close> on the items of a dictionary, and on any value.\<close>

definition dict_get :: "(ustring \<times> pyval) list \<Rightarrow> ustring \<Rightarrow> pyval" where
  "dict_get kvs key = (case map_of kvs key of None \<Rightarrow> PNone | Some v \<Rightarrow> v)"

definition py_get :: "pyval \<Rightarrow> ustring \<Rightarrow> error + pyval" where
  "py_get d key = (case d of PDict kvs \<Rightarrow> Inr (dict_get kvs key) | _ \<Rightarrow> Inl AttributeError)"

text \<open>\<^verbatim>\<open>d[key]\<close>.\<close>

definition py_subscript :: "pyval \<Rightarrow> ustring \<Rightarrow> error + pyval" where
  "py_subscript d key =
     (case d of
        PDict kvs \<Rightarrow> (case map_of kvs key of None \<Rightarrow> Inl KeyError | Some v \<Rightarrow> Inr v)
      | _ \<Rightarrow> Inl TypeError)"

fun dict_set :: "(ustring \<times> pyval) list \<Rightarrow> ustring \<Rightarrow> pyval \<Rightarrow> (ustring \<times> pyval) list" where
  "dict_set [] key v = [(key, v)]"
| "dict_set (kv # kvs) key v =
     (if fst kv = key then (key, v) # kvs else kv # dict_set kvs key v)"

text \<open>\<^verbatim>\<open>for x in v\<close>: the elements of a list, the characters of a string, the keys
  of a dictionary; any other value is not iterable.\<close>

definition py_iter :: "pyval \<Rightarrow> error + pyval list" where
  "py_iter v =
     (case v of
        PList xs \<Rightarrow> Inr xs
      | PStr s \<Rightarrow> Inr (map (\<lambda>c. PStr [c]) s)
      | PDict kvs \<Rightarrow> Inr (map (\<lambda>kv. PStr (fst kv)) kvs)
      | _ \<Rightarrow> Inl TypeError)"

section \<open>The environment of a turn\<close>

text \<open>
  What the program takes from outside its own source.
  \<^item> \<open>lower\<close>: the Unicode case mapping of \<^verbatim>\<open>str.lower\<close>.
  \<^item> \<open>repr\<close>: the text Python prints for floats, containers and dates.
  \<^item> \<open>set_order\<close>: the order in which a Python set is iterated.
  \<^item> \<open>sql_like\<close>: the \<^verbatim>\<open>LIKE\<close> operator of the SQL engine (pattern first).
  \<^item> \<open>chat_completion\<close>: the chat service. The request is the conversation history
    and the customer's message between fixed texts (the system prompt and the
    extraction instruction, with fixed sampling parameters), so the service is a
    function of the history and the message; it answers with the content of the first
    choice or raises.
  \<^item> \<open>json_loads\<close>: \<^verbatim>\<open>json.loads\<close>, \<open>None\<close> when it raises.
  \<^item> \<open>utcnow\<close>: the clock.
  \<^item> \<open>orm_attr\<close>: the names other than the columns for which
    \<^verbatim>\<open>hasattr\<close> holds on a state object (what the class inherits from the ORM
    and from \<^verbatim>\<open>object\<close>, such as \<^verbatim>\<open>metadata\<close> or
    \<^verbatim>\<open>__class__\<close>); \<open>orm_setattr\<close>: what assigning such an attribute leads
    to, the columns of the object after it or the error it makes the call raise.
  \<^item> \<open>engine_store\<close>: what a commit followed by a refresh makes of a value that is
    assigned to a column of another type, or to a key column: the value the session
    reads back, or the error that the commit raises. It is given the rows of the table
    and the name of the column.
\<close>

record env =
  lower :: "ustring \<Rightarrow> ustring"
  repr :: "pyval \<Rightarrow> ustring"
  set_order :: "ustring list \<Rightarrow> ustring list"
  sql_like :: "ustring \<Rightarrow> ustring \<Rightarrow> bool"
  chat_completion :: "(ustring \<times> ustring) list \<Rightarrow> ustring \<Rightarrow> error + ustring option"
  json_loads :: "ustring \<Rightarrow> pyval option"
  utcnow :: nat
  orm_attr :: "string \<Rightarrow> bool"
  orm_setattr :: "ConversationState \<Rightarrow> string \<Rightarrow> pyval \<Rightarrow> error + ConversationState"
  engine_store :: "ConversationState list \<Rightarrow> string \<Rightarrow> pyval \<Rightarrow> error + pyval"

text \<open>The text of a value in an f-string.\<close>

definition py_str :: "env \<Rightarrow> pyval \<Rightarrow> ustring" where
  "py_str e v =
     (case v of
        PStr s \<Rightarrow> s
      | PInt i \<Rightarrow> str_int i
      | PNone \<Rightarrow> u ''None''
      | PBool b \<Rightarrow> (if b then u ''True'' else u ''False'')
      | _ \<Rightarrow> repr e v)"


section \<open>The fixed texts\<close>

text \<open>
  The string literals of the program that are not ASCII, as code points; each is the
  literal at the place named with it.
\<close>

text \<open>conversation_service.py, line 143 (19 code points).\<close>

definition default_text :: ustring where
  "default_text =
    [1603, 1610, 1601, 32, 1610, 1605, 1603, 1606, 1606, 1610, 32, 1605, 1587, 1575,
     1593, 1583, 1578, 1603, 1567]"

text \<open>conversation_service.py, line 147 (254 code points).\<close>

definition base_greeting :: ustring where
  "base_greeting =
    [1571, 1607, 1604, 1575, 1611, 32, 1576, 1603, 33, 32, 1606, 1581, 1606, 32,
     1607, 1606, 1575, 32, 1604, 1578, 1581, 1608, 1610, 1604, 32, 1601, 1603, 1585,
     1578, 1603, 32, 1573, 1604, 1609, 32, 1608, 1575, 1602, 1593, 46, 32, 1601,
     1610, 32, 1571, 1610, 32, 1591, 1604, 1576, 1548, 32, 1610, 1605, 1603, 1606,
     1603, 32, 1603, 1578, 1575, 1576, 1577, 32, 1605, 1604, 1575, 1581, 1592, 1575,
     1578, 1603, 32, 1575, 1604, 1583, 1602, 1610, 1602, 1577, 32, 1573, 1584, 1575,
     32, 1603, 1606, 1578, 32, 1578, 1601, 1590, 1604, 32, 1588, 1610, 1574, 1575,
     1611, 32, 1582, 1575, 1589, 1575, 1611, 32, 1576, 1575, 1604, 1578, 1589, 1605,
     1610, 1605, 1548, 32, 1605, 1579, 1604, 58, 32, 39, 1571, 1585, 1610, 1583, 32,
     1581, 1576, 1604, 32, 1575, 1604, 1603, 1610, 1587, 32, 1605, 1582, 1601, 1610,
     1575, 1611, 32, 1605, 1606, 32, 1575, 1604, 1583, 1575, 1582, 1604, 39, 32,
     1571, 1608, 32, 39, 1575, 1587, 1578, 1576, 1583, 1575, 1604, 1607, 32, 1576,
     1588, 1585, 1610, 1591, 1577, 32, 1581, 1605, 1585, 1575, 1569, 39, 46, 32,
     1571, 1606, 1575, 32, 1571, 1601, 1607, 1605, 32, 1591, 1604, 1576, 1603, 32,
     1580, 1610, 1583, 1575, 1611, 1548, 32, 1608, 1580, 1605, 1610, 1593, 32, 1605,
     1604, 1575, 1581, 1592, 1575, 1578, 1603, 32, 1587, 1578, 1572, 1582, 1584, 32,
     1576, 1593, 1610, 1606, 32, 1575, 1604, 1575, 1593, 1578, 1576, 1575, 1585, 32,
     1576, 1583, 1602, 1577, 1548, 32, 1601, 1604, 1575, 32, 1578, 1602, 1604, 1602,
     46]"

text \<open>conversation_service.py, line 151 (72 code points).\<close>

definition identity_line :: ustring where
  "identity_line =
    [1571, 1606, 1575, 32, 1608, 1603, 1610, 1604, 32, 1575, 1604, 1605, 1576, 1610,
     1593, 1575, 1578, 32, 1604, 1583, 1609, 32, 1605, 1591, 1576, 1593, 1577, 32,
     1582, 1575, 1604, 1583, 32, 1575, 1604, 1581, 1587, 1606, 1548, 32, 1608, 1605,
     1587, 1578, 1593, 1583, 32, 1571, 1582, 1583, 1605, 1603, 32, 1605, 1606, 32,
     1575, 1604, 1576, 1583, 1575, 1610, 1577, 32, 1604, 1604, 1606, 1607, 1575,
     1610, 1577, 46]"

text \<open>conversation_service.py, line 153 (105 code points).\<close>

definition follow_up :: ustring where
  "follow_up =
    [1607, 1604, 32, 1578, 1608, 1583, 32, 1571, 1606, 32, 1606, 1576, 1583, 1571,
     32, 1575, 1604, 1570, 1606, 32, 1576, 1578, 1581, 1583, 1610, 1583, 32, 1606,
     1608, 1593, 32, 1575, 1604, 1605, 1606, 1578, 1580, 32, 1571, 1608, 32, 1575,
     1604, 1605, 1608, 1575, 1583, 32, 1575, 1604, 1578, 1610, 32, 1578, 1601, 1603,
     1585, 32, 1576, 1607, 1575, 1567, 32, 1571, 1585, 1587, 1604, 32, 1604, 1610,
     32, 1571, 1610, 32, 1578, 1601, 1575, 1589, 1610, 1604, 32, 1605, 1608, 1580,
     1608, 1583, 1577, 32, 1593, 1606, 1583, 1603, 32, 1608, 1587, 1571, 1585, 1578,
     1576, 1607, 1575, 32, 1604, 1603, 46]"

text \<open>conversation_service.py, line 160 (13 code points).\<close>

definition category_header :: ustring where
  "category_header =
    [1575, 1582, 1578, 1585, 32, 1575, 1604, 1602, 1587, 1605, 58, 10, 10]"

text \<open>conversation_service.py, line 172 (42 code points).\<close>

definition no_types_text :: ustring where
  "no_types_text =
    [1593, 1584, 1585, 1575, 1611, 1548, 32, 1604, 1575, 32, 1578, 1608, 1580, 1583,
     32, 1605, 1606, 1578, 1580, 1575, 1578, 32, 1601, 1610, 32, 1607, 1584, 1575,
     32, 1575, 1604, 1602, 1587, 1605, 32, 1581, 1575, 1604, 1610, 1575, 1611, 46]"

text \<open>conversation_service.py, line 174 (13 code points).\<close>

definition type_header :: ustring where
  "type_header =
    [1575, 1582, 1578, 1585, 32, 1575, 1604, 1606, 1608, 1593, 58, 10, 10]"

text \<open>conversation_service.py, line 194 (20 code points).\<close>

definition size_question_text :: ustring where
  "size_question_text =
    [1605, 1575, 32, 1607, 1608, 32, 1575, 1604, 1581, 1580, 1605, 32, 1575, 1604,
     1605, 1591, 1604, 1608, 1576, 1567]"

text \<open>conversation_service.py, line 196 (15 code points).\<close>

definition size_header :: ustring where
  "size_header =
    [128207, 32, 1575, 1582, 1578, 1585, 32, 1575, 1604, 1581, 1580, 1605, 58, 10,
     10]"

text \<open>conversation_service.py, line 216 (13 code points).\<close>

definition variant_header :: ustring where
  "variant_header =
    [1575, 1582, 1578, 1585, 32, 1575, 1604, 1606, 1608, 1593, 58, 10, 10]"

text \<open>conversation_service.py, line 219 (5 code points).\<close>

definition kw_double_wall :: ustring where
  "kw_double_wall =
    [1605, 1586, 1583, 1608, 1580]"

text \<open>conversation_service.py, line 219 (3 code points).\<close>

definition kw_dabl :: ustring where
  "kw_dabl =
    [1583, 1576, 1604]"

text \<open>conversation_service.py, line 220 (27 code points).\<close>

definition double_wall_tag :: ustring where
  "double_wall_tag =
    [32, 40, 1601, 1575, 1582, 1585, 32, 45, 32, 1593, 1586, 1604, 32, 1581, 1585,
     1575, 1585, 1610, 32, 1593, 1575, 1604, 1610, 41, 32, 11088, 10]"

text \<open>conversation_service.py, line 221 (4 code points).\<close>

definition kw_single_wall :: ustring where
  "kw_single_wall =
    [1608, 1575, 1581, 1583]"

text \<open>conversation_service.py, line 221 (4 code points).\<close>

definition kw_singl :: ustring where
  "kw_singl =
    [1587, 1606, 1580, 1604]"

text \<open>conversation_service.py, line 222 (11 code points).\<close>

definition single_wall_tag :: ustring where
  "single_wall_tag =
    [32, 40, 1575, 1602, 1578, 1589, 1575, 1583, 1610, 41, 10]"

text \<open>conversation_service.py, line 223 (4 code points).\<close>

definition kw_ripple :: ustring where
  "kw_ripple =
    [1605, 1605, 1608, 1580]"

text \<open>conversation_service.py, line 224 (21 code points).\<close>

definition ripple_tag :: ustring where
  "ripple_tag =
    [32, 40, 1601, 1582, 1605, 32, 45, 32, 1605, 1604, 1605, 1587, 32, 1576, 1575,
     1585, 1586, 41, 32, 10024, 10]"

text \<open>conversation_service.py, line 241 (45 code points).\<close>

definition quantity_prefix :: ustring where
  "quantity_prefix =
    [10, 128290, 32, 1603, 1605, 32, 1575, 1604, 1603, 1605, 1610, 1577, 32, 1575,
     1604, 1605, 1591, 1604, 1608, 1576, 1577, 1567, 10, 10, 128204, 32, 1575, 1604,
     1581, 1583, 32, 1575, 1604, 1571, 1583, 1606, 1609, 32, 1604, 1604, 1591, 1604,
     1576, 58, 32]"

text \<open>conversation_service.py, line 241 (43 code points).\<close>

definition quantity_suffix :: ustring where
  "quantity_suffix =
    [32, 1602, 1591, 1593, 1577, 10, 128161, 32, 1603, 1604, 1605, 1575, 32, 1586,
     1575, 1583, 1578, 32, 1575, 1604, 1603, 1605, 1610, 1577, 1548, 32, 1575, 1606,
     1582, 1601, 1590, 32, 1587, 1593, 1585, 32, 1575, 1604, 1608, 1581, 1583, 1577,
     10]"

text \<open>conversation_service.py, line 250 (84 code points).\<close>

definition confirm_suffix :: ustring where
  "confirm_suffix =
    [10, 10, 1607, 1584, 1575, 32, 1607, 1608, 32, 1605, 1604, 1582, 1589, 32, 1591,
     1604, 1576, 1603, 32, 1575, 1604, 1606, 1607, 1575, 1574, 1610, 46, 10, 10,
     1607, 1604, 32, 1571, 1606, 1578, 32, 1605, 1608, 1575, 1601, 1602, 32, 1593,
     1604, 1609, 32, 1607, 1584, 1575, 32, 1575, 1604, 1591, 1604, 1576, 1567, 10,
     1575, 1603, 1578, 1576, 58, 32, 1605, 1608, 1575, 1601, 1602, 32, 47, 32, 1578,
     1593, 1583, 1610, 1604, 32, 47, 32, 1573, 1604, 1594, 1575, 1569]"

text \<open>conversation_service.py, line 255 (20 code points).\<close>

definition summary_title :: ustring where
  "summary_title =
    [128203, 32, 1605, 1604, 1582, 1589, 32, 1591, 1604, 1576, 1603, 32, 1575, 1604,
     1606, 1607, 1575, 1574, 1610, 58]"

text \<open>conversation_service.py, line 261 (9 code points).\<close>

definition label_category :: ustring where
  "label_category =
    [128450, 32, 1575, 1604, 1602, 1587, 1605, 58, 32]"

text \<open>conversation_service.py, line 267 (9 code points).\<close>

definition label_type :: ustring where
  "label_type =
    [128196, 32, 1575, 1604, 1606, 1608, 1593, 58, 32]"

text \<open>conversation_service.py, line 273 (10 code points).\<close>

definition label_product :: ustring where
  "label_product =
    [128230, 32, 1575, 1604, 1605, 1606, 1578, 1580, 58, 32]"

text \<open>conversation_service.py, line 275 (10 code points).\<close>

definition label_size :: ustring where
  "label_size =
    [128207, 32, 1575, 1604, 1605, 1602, 1575, 1587, 58, 32]"

text \<open>conversation_service.py, line 279 (10 code points).\<close>

definition label_kind :: ustring where
  "label_kind =
    [9881, 65039, 32, 1575, 1604, 1606, 1608, 1593, 58, 32]"

text \<open>conversation_service.py, line 283 (10 code points).\<close>

definition label_quantity :: ustring where
  "label_quantity =
    [128290, 32, 1575, 1604, 1603, 1605, 1610, 1577, 58, 32]"

text \<open>conversation_service.py, line 287 (11 code points).\<close>

definition label_accessories :: ustring where
  "label_accessories =
    [10133, 32, 1575, 1604, 1605, 1604, 1581, 1602, 1575, 1578, 58]"

text \<open>conversation_service.py, line 292 (4 code points).\<close>

definition bullet :: ustring where
  "bullet =
    [32, 32, 8226, 32]"

text \<open>conversation_service.py, line 292 (3 code points).\<close>

definition times_sign :: ustring where
  "times_sign =
    [32, 215, 32]"

text \<open>conversation_service.py, line 297 (18 code points).\<close>

definition label_notes :: ustring where
  "label_notes =
    [128221, 32, 1605, 1604, 1575, 1581, 1592, 1575, 1578, 32, 1575, 1604, 1593,
     1605, 1610, 1604, 58, 32]"

text \<open>conversation_service.py, line 300 (72 code points).\<close>

definition price_line :: ustring where
  "price_line =
    [128176, 32, 1575, 1604, 1587, 1593, 1585, 58, 32, 1587, 1610, 1578, 1605, 32,
     1578, 1581, 1583, 1610, 1583, 1607, 32, 1605, 1606, 32, 1602, 1576, 1604, 32,
     1573, 1583, 1575, 1585, 1577, 32, 1605, 1591, 1576, 1593, 1577, 32, 1582, 1575,
     1604, 1583, 32, 1575, 1604, 1581, 1587, 1606, 32, 1576, 1593, 1583, 32, 1605,
     1585, 1575, 1580, 1593, 1577, 32, 1575, 1604, 1573, 1605, 1603, 1575, 1606,
     1610, 1577, 46]"

text \<open>main.py, line 69 (5 code points).\<close>

definition kw_ilghaa :: ustring where
  "kw_ilghaa =
    [1573, 1604, 1594, 1575, 1569]"

text \<open>main.py, line 69 (5 code points).\<close>

definition kw_bidaya :: ustring where
  "kw_bidaya =
    [1576, 1583, 1575, 1610, 1577]"

text \<open>main.py, line 69 (7 code points).\<close>

definition kw_min_jadid :: ustring where
  "kw_min_jadid =
    [1605, 1606, 32, 1580, 1583, 1610, 1583]"

text \<open>main.py, line 78 (5 code points).\<close>

definition kw_muwafiq :: ustring where
  "kw_muwafiq =
    [1605, 1608, 1575, 1601, 1602]"

text \<open>main.py, line 78 (3 code points).\<close>

definition kw_naam :: ustring where
  "kw_naam =
    [1606, 1593, 1605]"

text \<open>main.py, line 78 (4 code points).\<close>

definition kw_tamam :: ustring where
  "kw_tamam =
    [1578, 1605, 1575, 1605]"

text \<open>main.py, line 81 (92 code points).\<close>

definition order_received_text :: ustring where
  "order_received_text =
    [1578, 1605, 32, 1575, 1587, 1578, 1604, 1575, 1605, 32, 1591, 1604, 1576, 1603,
     46, 10, 1576, 1581, 1575, 1604, 32, 1578, 1608, 1601, 1585, 32, 1591, 1604,
     1576, 1603, 32, 1608, 1605, 1608, 1575, 1601, 1602, 1577, 32, 1575, 1604, 1575,
     1583, 1575, 1585, 1577, 32, 1593, 1604, 1609, 32, 1575, 1604, 1578, 1606, 1601,
     1610, 1584, 32, 1585, 1575, 1581, 32, 1571, 1593, 1591, 1610, 1603, 32, 1578,
     1601, 1575, 1589, 1610, 1604, 32, 1575, 1604, 1583, 1601, 1593, 32, 1576, 1571,
     1602, 1585, 1576, 32, 1608, 1602, 1578, 46]"

text \<open>main.py, line 86 (5 code points).\<close>

definition kw_taadil :: ustring where
  "kw_taadil =
    [1578, 1593, 1583, 1610, 1604]"

text \<open>main.py, line 92 (5 code points).\<close>

definition kw_alghaa :: ustring where
  "kw_alghaa =
    [1575, 1604, 1594, 1575, 1569]"

text \<open>main.py, line 94 (57 code points).\<close>

definition order_cancelled_text :: ustring where
  "order_cancelled_text =
    [1578, 1605, 32, 1573, 1604, 1594, 1575, 1569, 32, 1575, 1604, 1591, 1604, 1576,
     32, 1575, 1604, 1581, 1575, 1604, 1610, 46, 32, 1605, 1578, 1609, 32, 1605,
     1575, 32, 1581, 1576, 1610, 1578, 32, 1606, 1576, 1583, 1571, 32, 1605, 1606,
     32, 1580, 1583, 1610, 1583, 32, 1571, 1606, 1575, 32, 1580, 1575, 1607, 1586,
     46]"

text \<open>main.py, line 132 (4 code points).\<close>

definition default_customer :: ustring where
  "default_customer =
    [1593, 1605, 1610, 1604]"

text \<open>main.py, line 139 (41 code points).\<close>

definition invoice_text_head :: ustring where
  "invoice_text_head =
    [10, 9989, 32, 1578, 1605, 32, 1573, 1589, 1583, 1575, 1585, 32, 1575, 1604,
     1601, 1575, 1578, 1608, 1585, 1577, 33, 10, 10, 128203, 32, 1578, 1601, 1575,
     1589, 1610, 1604, 32, 1575, 1604, 1591, 1604, 1576, 58, 10, 128230, 32]"

text \<open>main.py, line 139 (11 code points).\<close>

definition invoice_text_quantity :: ustring where
  "invoice_text_quantity =
    [10, 128290, 32, 1575, 1604, 1603, 1605, 1610, 1577, 58, 32]"

text \<open>main.py, line 139 (64 code points).\<close>

definition invoice_text_tail :: ustring where
  "invoice_text_tail =
    [10, 10, 1587, 1610, 1578, 1605, 32, 1575, 1604, 1578, 1608, 1575, 1589, 1604,
     32, 1605, 1593, 1603, 32, 1604, 1578, 1571, 1603, 1610, 1583, 32, 1575, 1604,
     1591, 1604, 1576, 32, 1608, 1575, 1604, 1578, 1587, 1604, 1610, 1605, 46, 10,
     1588, 1603, 1585, 1575, 1611, 32, 1604, 1578, 1593, 1575, 1605, 1604, 1603, 32,
     1605, 1593, 1606, 1575, 33, 32, 128591, 10]"

text \<open>main.py, line 185 (93 code points).\<close>

definition error_msg :: ustring where
  "error_msg =
    [10, 1593, 1584, 1585, 1575, 1611, 1548, 32, 1581, 1583, 1579, 32, 1582, 1591,
     1571, 46, 32, 128517, 10, 10, 1610, 1605, 1603, 1606, 1603, 58, 10, 8226, 32,
     1603, 1578, 1575, 1576, 1577, 32, 34, 1576, 1583, 1575, 1610, 1577, 34, 32,
     1604, 1604, 1576, 1583, 1569, 32, 1605, 1606, 32, 1580, 1583, 1610, 1583, 10,
     8226, 32, 1571, 1608, 32, 1575, 1603, 1578, 1576, 32, 1605, 1575, 32, 1578,
     1581, 1578, 1575, 1580, 1607, 32, 1608, 1587, 1571, 1581, 1575, 1608, 1604, 32,
     1605, 1587, 1575, 1593, 1583, 1578, 1603, 10]"

text \<open>order_service.py, line 30 (13 code points).\<close>

definition unnamed_customer :: ustring where
  "unnamed_customer =
    [1593, 1605, 1610, 1604, 32, 1576, 1583, 1608, 1606, 32, 1575, 1587, 1605]"

text \<open>ai_service.py, line 123 (35 code points).\<close>

definition error_response_text :: ustring where
  "error_response_text =
    [1593, 1584, 1585, 1575, 1611, 1548, 32, 1581, 1583, 1579, 32, 1582, 1591, 1571,
     46, 32, 1603, 1610, 1601, 32, 1610, 1605, 1603, 1606, 1606, 1610, 32, 1605,
     1587, 1575, 1593, 1583, 1578, 1603, 1567]"

section \<open>The other tables and the session (database.py)\<close>

text \<open>
  The catalog rows carry the columns that the conversation and order services read;
  a nullable column is an \<open>option\<close>. The catalog is seeded with typed values and is
  never written by the modelled functions.
\<close>

record ProductCategory =
  cat_id :: int
  cat_name :: ustring
  cat_icon :: "ustring option"

record ProductType =
  pt_id :: int
  pt_category_id :: int
  pt_name :: ustring
  pt_material :: "ustring option"

record ProductVariant =
  pv_id :: int
  pv_type_id :: int
  pv_name :: ustring
  pv_size :: "ustring option"
  pv_size_details :: "ustring option"
  pv_variant_type :: "ustring option"
  pv_min_quantity :: "int option"
  pv_is_available :: "bool option"

text \<open>
  A row of \<^verbatim>\<open>orders\<close>. The columns \<^verbatim>\<open>customer_name\<close> and
  \<^verbatim>\<open>notes\<close> are the fields \<open>order_customer_name\<close> and \<open>order_notes\<close>
  (the conversation state has columns of the same names). Amounts are Python floats
  that are only stored and copied, never computed with.
\<close>

record Order =
  order_id :: int
  customer_phone :: pyval
  order_customer_name :: pyval
  business_name :: "ustring option"
  order_details :: pyval
  total_amount :: "real option"
  invoice_path :: "ustring option"
  status :: ustring
  has_capacity :: "bool option"
  approved_amount :: "real option"
  estimated_days :: "int option"
  payment_url :: "ustring option"
  payment_status :: ustring
  paid_at :: "nat option"
  order_notes :: "ustring option"
  created_at :: nat

record ChatLog =
  log_phone_number :: ustring
  message_type :: ustring
  message_content :: pyval
  intent :: pyval
  timestamp :: nat

text \<open>
  The SQLAlchemy session over the SQLite file: one list of rows per table, in insertion
  order. A row object that the program holds is its position in the table: two names
  for the same position are two names for the same object, as the session's identity
  map has it. Where the program itself builds the values it stores (a new state, a
  reset, an order, a log row), they are of the types of their columns and the commit
  keeps them; \<open>update_state\<close> stores what its caller passes, and its commit is
  modelled column by column further down.
\<close>

record database =
  product_categories :: "ProductCategory list"
  product_types :: "ProductType list"
  product_variants :: "ProductVariant list"
  conversation_states :: "ConversationState list"
  orders :: "Order list"
  chat_logs :: "ChatLog list"

fun first_index :: "('a \<Rightarrow> bool) \<Rightarrow> 'a list \<Rightarrow> nat option" where
  "first_index P [] = None"
| "first_index P (x # xs) = (if P x then Some 0 else map_option Suc (first_index P xs))"

text \<open>The next integer primary key of a table: one more than the largest key in it.\<close>

definition next_id :: "int list \<Rightarrow> int" where
  "next_id ids = fold max ids 0 + 1"

fun int_key :: "pyval \<Rightarrow> int" where
  "int_key (PInt i) = i"
| "int_key v = 0"

definition state_at :: "database \<Rightarrow> nat \<Rightarrow> ConversationState" where
  "state_at db i = conversation_states db ! i"

text \<open>The object a store operation returns, read in the database it leaves.\<close>

definition the_state :: "database \<times> nat \<Rightarrow> ConversationState" where
  "the_state r = state_at (fst r) (snd r)"

definition new_state :: "database \<Rightarrow> ustring \<Rightarrow> nat \<Rightarrow> ConversationState" where
  "new_state db phone now =
     \<lparr>cs_id = PInt (next_id (map (\<lambda>s. int_key (cs_id s)) (conversation_states db))),
      phone_number = PStr phone,
      current_step = PStr (u ''greeting''),
      selected_category_id = PNone,
      selected_type_id = PNone,
      selected_variant_id = PNone,
      selected_quantity = PNone,
      selected_accessories = PNone,
      customer_name = PNone,
      cs_notes = PNone,
      last_message = PNone,
      updated_at = PDatetime now\<rparr>"

text \<open>
  \<^verbatim>\<open>ConversationManager.get_or_create_state\<close>: the first row with that phone
  number, or a new row at step greeting appended to the table. \<open>now\<close> is the reading of
  \<^verbatim>\<open>datetime.utcnow()\<close>.
\<close>

definition get_or_create_state :: "database \<Rightarrow> ustring \<Rightarrow> nat \<Rightarrow> database \<times> nat" where
  "get_or_create_state db phone now =
     (case first_index (\<lambda>s. phone_number s = PStr phone) (conversation_states db) of
        Some i \<Rightarrow> (db, i)
      | None \<Rightarrow>
          (db\<lparr>conversation_states := conversation_states db @ [new_state db phone now]\<rparr>,
           length (conversation_states db)))"

text \<open>The row that the query for a phone number finds.\<close>

definition state_of :: "database \<Rightarrow> ustring \<Rightarrow> ConversationState option" where
  "state_of db phone = find (\<lambda>s. phone_number s = PStr phone) (conversation_states db)"

section \<open>Commit and refresh of a conversation state\<close>

text \<open>
  The types of the columns of \<^verbatim>\<open>conversation_states\<close>; \<^verbatim>\<open>Text\<close> is
  stored as \<^verbatim>\<open>String\<close> is.
\<close>

datatype coltype = ColInteger | ColString | ColJSON | ColDateTime

definition column_type :: "string \<Rightarrow> coltype" where
  "column_type column =
     (if column \<in> set [''id'', ''selected_category_id'', ''selected_type_id'',
                        ''selected_variant_id'', ''selected_quantity'']
      then ColInteger
      else if column = ''selected_accessories'' then ColJSON
      else if column = ''updated_at'' then ColDateTime
      else ColString)"

text \<open>A string that the database driver can encode: no character 0, no surrogate, no
  code point beyond the last one of Unicode.\<close>

definition valid_text :: "ustring \<Rightarrow> bool" where
  "valid_text s = list_all (\<lambda>c. 0 < c \<and> (c < 55296 \<or> (57343 < c \<and> c < 1114112))) s"

text \<open>
  What the session reads back after a commit for a value assigned to a column, or the
  error that the commit raises. \<^verbatim>\<open>None\<close> is stored in every column that is not a
  key; an integer column keeps an integer of 64 bits and the driver raises
  \<^verbatim>\<open>OverflowError\<close> for a larger one; a string column keeps a string; the date
  column keeps a date. Every other case is the engine's: it may convert the value (the
  text "2000" in an integer column is read back as the integer 2000, the integer 5 in a
  string column as the text "5") or refuse it.
\<close>

definition store_value :: "env \<Rightarrow> ConversationState list \<Rightarrow> string \<Rightarrow> pyval \<Rightarrow> error + pyval" where
  "store_value e rows column v =
     (if column = ''id'' \<or> column = ''phone_number'' then engine_store e rows column v
      else case v of
        PNone \<Rightarrow> Inr PNone
      | PInt n \<Rightarrow>
          if column_type column = ColInteger
          then (if - (2 ^ 63) \<le> n \<and> n < 2 ^ 63 then Inr (PInt n) else Inl OverflowError)
          else engine_store e rows column v
      | PStr s \<Rightarrow>
          if column_type column = ColString \<and> valid_text s then Inr (PStr s)
          else engine_store e rows column v
      | PDatetime t \<Rightarrow>
          if column_type column = ColDateTime then Inr (PDatetime t)
          else engine_store e rows column v
      | _ \<Rightarrow> engine_store e rows column v)"

definition column_value :: "ConversationState \<Rightarrow> string \<Rightarrow> pyval" where
  "column_value st column = (case getattr st column of None \<Rightarrow> PNone | Some v \<Rightarrow> v)"

text \<open>
  \<^verbatim>\<open>db.commit()\<close> and \<^verbatim>\<open>db.refresh(state)\<close> for a state object whose
  columns were \<open>old\<close> when it was loaded and are \<open>new\<close> now: the columns whose value
  has changed are written, and all are read back. The first column that cannot be
  stored makes the commit raise, and then nothing is written.
\<close>

definition commit_column ::
  "env \<Rightarrow> ConversationState list \<Rightarrow> ConversationState \<Rightarrow> ConversationState \<Rightarrow> string \<Rightarrow> error + pyval" where
  "commit_column e rows old new column =
     (if column_value new column = column_value old column then Inr (column_value old column)
      else store_value e rows column (column_value new column))"

fun store_columns ::
  "env \<Rightarrow> ConversationState list \<Rightarrow> ConversationState \<Rightarrow> ConversationState \<Rightarrow> string list \<Rightarrow>
   ConversationState \<Rightarrow> error + ConversationState" where
  "store_columns e rows old new [] acc = Inr acc"
| "store_columns e rows old new (c # cs) acc =
     (case commit_column e rows old new c of
        Inl err \<Rightarrow> Inl err
      | Inr v \<Rightarrow> store_columns e rows old new cs (setattr acc c v))"

definition commit_refresh ::
  "env \<Rightarrow> ConversationState list \<Rightarrow> ConversationState \<Rightarrow> ConversationState \<Rightarrow> error + ConversationState" where
  "commit_refresh e rows old new = store_columns e rows old new state_attrs new"

section \<open>Partial update and reset (services/conversation\_service.py)\<close>

text \<open>
  \<^verbatim>\<open>hasattr(state, key)\<close> and \<^verbatim>\<open>setattr(state, key, value)\<close> in the loop
  of \<^verbatim>\<open>update_state\<close>: a column takes the value, an attribute of the ORM does what
  the library does with it, any other name is skipped.
\<close>

definition hasattr :: "env \<Rightarrow> string \<Rightarrow> bool" where
  "hasattr e key = (key \<in> set state_attrs \<or> orm_attr e key)"

definition apply_kwarg ::
  "env \<Rightarrow> ConversationState \<Rightarrow> string \<times> pyval \<Rightarrow> error + ConversationState" where
  "apply_kwarg e st kv =
     (if hasattr e (fst kv)
      then (if fst kv \<in> set state_attrs then Inr (setattr st (fst kv) (snd kv))
            else orm_setattr e st (fst kv) (snd kv))
      else Inr st)"

fun apply_kwargs ::
  "env \<Rightarrow> ConversationState \<Rightarrow> (string \<times> pyval) list \<Rightarrow> error + ConversationState" where
  "apply_kwargs e st [] = Inr st"
| "apply_kwargs e st (kv # kvs) =
     (case apply_kwarg e st kv of
        Inl err \<Rightarrow> Inl err
      | Inr st' \<Rightarrow> apply_kwargs e st' kvs)"

text \<open>
  \<^verbatim>\<open>ConversationManager.update_state(self, phone_number, **kwargs)\<close>: the keyword
  arguments are a list of names with values, in the order given. A call that passes
  \<^verbatim>\<open>self\<close> or \<^verbatim>\<open>phone_number\<close> by keyword as well is refused by Python
  with \<^verbatim>\<open>TypeError\<close> before the body runs. The result is the database as last
  committed, with the state object or the exception that the call raises.
\<close>

definition update_state ::
  "env \<Rightarrow> database \<Rightarrow> ustring \<Rightarrow> (string \<times> pyval) list \<Rightarrow> nat \<Rightarrow> database \<times> (error + nat)" where
  "update_state e db phone kwargs now =
     (if ''self'' \<in> fst ` set kwargs \<or> ''phone_number'' \<in> fst ` set kwargs
      then (db, Inl TypeError)
      else (let (db1, i) = get_or_create_state db phone now in
            case apply_kwargs e (state_at db1 i) kwargs of
              Inl err \<Rightarrow> (db1, Inl err)
            | Inr st \<Rightarrow>
                (case commit_refresh e (conversation_states db1) (state_at db1 i)
                        (st\<lparr>updated_at := PDatetime now\<rparr>) of
                   Inl err \<Rightarrow> (db1, Inl err)
                 | Inr st' \<Rightarrow>
                     (db1\<lparr>conversation_states := (conversation_states db1)[i := st']\<rparr>,
                      Inr i))))"

text \<open>\<^verbatim>\<open>ConversationManager.reset_state\<close>.\<close>

definition reset_state :: "database \<Rightarrow> ustring \<Rightarrow> nat \<Rightarrow> database \<times> nat" where
  "reset_state db phone now =
     (let (db1, i) = get_or_create_state db phone now;
          st = (state_at db1 i)
            \<lparr>current_step := PStr (u ''greeting''),
             selected_category_id := PNone,
             selected_type_id := PNone,
             selected_variant_id := PNone,
             selected_quantity := PNone,
             selected_accessories := PNone,
             cs_notes := PNone,
             updated_at := PDatetime now\<rparr>
      in (db1\<lparr>conversation_states := (conversation_states db1)[i := st]\<rparr>, i))"

section \<open>Prompt generation (services/conversation\_service.py)\<close>

definition STEPS :: "ustring list" where
  "STEPS =
     [u ''greeting'', u ''category'', u ''type'', u ''size'', u ''variant'', u ''quantity'',
      u ''accessories'', u ''confirm'', u ''invoice'']"

text \<open>\<^verbatim>\<open>ConversationManager.get_next_step\<close>; a step that is not in the list gives
  greeting, as the last one does.\<close>

definition get_next_step :: "ustring \<Rightarrow> ustring" where
  "get_next_step step =
     (case first_index (\<lambda>s. s = step) STEPS of
        Some i \<Rightarrow> (if i < length STEPS - 1 then STEPS ! (i + 1) else u ''greeting'')
      | None \<Rightarrow> u ''greeting'')"

text \<open>
  Queries on the catalog. The key that the program compares with an integer column is
  the value of a state attribute: a row matches when the key is that integer.
\<close>

definition get_category :: "database \<Rightarrow> pyval \<Rightarrow> ProductCategory option" where
  "get_category db key = find (\<lambda>c. PInt (cat_id c) = key) (product_categories db)"

definition get_type :: "database \<Rightarrow> pyval \<Rightarrow> ProductType option" where
  "get_type db key = find (\<lambda>t. PInt (pt_id t) = key) (product_types db)"

definition get_variant :: "database \<Rightarrow> pyval \<Rightarrow> ProductVariant option" where
  "get_variant db key = find (\<lambda>v. PInt (pv_id v) = key) (product_variants db)"

definition types_of_category :: "database \<Rightarrow> pyval \<Rightarrow> ProductType list" where
  "types_of_category db key = filter (\<lambda>t. PInt (pt_category_id t) = key) (product_types db)"

definition variants_of_type :: "database \<Rightarrow> pyval \<Rightarrow> ProductVariant list" where
  "variants_of_type db key = filter (\<lambda>v. PInt (pv_type_id v) = key) (product_variants db)"

definition greeting_message :: ustring where
  "greeting_message = base_greeting @ [10] @ identity_line @ [10] @ follow_up"

definition category_message :: "database \<Rightarrow> ustring" where
  "category_message db =
     category_header @
     concat (map (\<lambda>(i, cat). fmt_opt (cat_icon cat) @ u '' '' @ str_nat i @ u ''. '' @
                              cat_name cat @ [10])
                 (List.enumerate 1 (product_categories db)))"

definition type_message :: "database \<Rightarrow> pyval \<Rightarrow> ustring" where
  "type_message db category_id =
     (let types = types_of_category db category_id in
      if types = [] then no_types_text
      else type_header @
           concat (map (\<lambda>(i, t). str_nat i @ u ''. '' @ pt_name t @
                                  paren_opt (pt_material t) @ [10])
                       (List.enumerate 1 types)))"

text \<open>The dictionary \<^verbatim>\<open>sizes\<close> of \<^verbatim>\<open>_size_message\<close>, as its items in
  insertion order.\<close>

definition add_size :: "(ustring \<times> ustring) list \<Rightarrow> ProductVariant \<Rightarrow> (ustring \<times> ustring) list" where
  "add_size sizes v =
     (case pv_size v of
        None \<Rightarrow> sizes
      | Some s \<Rightarrow>
          if s \<noteq> [] \<and> s \<notin> fst ` set sizes
          then sizes @ [(s, paren_opt (pv_size_details v))]
          else sizes)"

definition size_message :: "database \<Rightarrow> pyval \<Rightarrow> ustring" where
  "size_message db type_id =
     (let sizes = foldl add_size [] (variants_of_type db type_id) in
      if sizes = [] then size_question_text
      else size_header @
           concat (map (\<lambda>(i, (size, details)). str_nat i @ u ''. '' @ size @ details @ [10])
                       (List.enumerate 1 sizes)))"

text \<open>
  The set \<^verbatim>\<open>variant_types\<close> of \<^verbatim>\<open>_variant_message\<close>: the distinct
  variant-kind labels that are truthy, here in the order of their first occurrence. The
  loop over the set visits them in the order \<open>set_order\<close> gives.
\<close>

definition add_variant_type :: "ustring list \<Rightarrow> ProductVariant \<Rightarrow> ustring list" where
  "add_variant_type vts v =
     (case pv_variant_type v of
        None \<Rightarrow> vts
      | Some vt \<Rightarrow> if vt \<noteq> [] \<and> vt \<notin> set vts then vts @ [vt] else vts)"

definition variant_types :: "database \<Rightarrow> pyval \<Rightarrow> ustring list" where
  "variant_types db type_id = foldl add_variant_type [] (variants_of_type db type_id)"

definition variant_line :: "nat \<times> ustring \<Rightarrow> ustring" where
  "variant_line p =
     (let i = fst p; vt = snd p in
      if contains kw_double_wall vt \<or> contains kw_dabl vt
      then str_nat i @ u ''. '' @ vt @ double_wall_tag
      else if contains kw_single_wall vt \<or> contains kw_singl vt
      then str_nat i @ u ''. '' @ vt @ single_wall_tag
      else if contains kw_ripple vt
      then str_nat i @ u ''. '' @ vt @ ripple_tag
      else str_nat i @ u ''. '' @ vt @ [10])"

text \<open>\<^verbatim>\<open>_variant_message\<close> returns \<^verbatim>\<open>None\<close> ("Skip this step") when
  the set is empty.\<close>

definition variant_message :: "env \<Rightarrow> database \<Rightarrow> pyval \<Rightarrow> ustring option" where
  "variant_message e db type_id =
     (let vts = variant_types db type_id in
      if vts = [] then None
      else Some (variant_header @
                 concat (map variant_line (List.enumerate 1 (set_order e vts)))))"

definition quantity_message :: "database \<Rightarrow> ConversationState \<Rightarrow> ustring" where
  "quantity_message db st =
     (let min_qty =
        (if truthy (selected_variant_id st)
         then (case get_variant db (selected_variant_id st) of
                 Some variant \<Rightarrow> fmt_int_opt (pv_min_quantity variant)
               | None \<Rightarrow> str_int 500)
         else str_int 500)
      in quantity_prefix @ min_qty @ quantity_suffix)"

text \<open>One pass of the loop over the selected accessories in
  \<^verbatim>\<open>build_final_summary\<close>: \<^verbatim>\<open>acc.get\<close> exists on a dictionary only.\<close>

definition accessory_line :: "env \<Rightarrow> pyval \<Rightarrow> error + ustring list" where
  "accessory_line e acc =
     (case acc of
        PDict kvs \<Rightarrow>
          (let name = py_or (dict_get kvs (u ''name'')) (dict_get kvs (u ''id''));
               qty = dict_get kvs (u ''qty'')
           in Inr (if truthy name \<and> truthy qty
                   then [bullet @ py_str e name @ times_sign @ py_str e qty]
                   else []))
      | _ \<Rightarrow> Inl AttributeError)"

fun accessory_lines :: "env \<Rightarrow> pyval list \<Rightarrow> error + ustring list" where
  "accessory_lines e [] = Inr []"
| "accessory_lines e (acc # accs) =
     (case accessory_line e acc of
        Inl err \<Rightarrow> Inl err
      | Inr l \<Rightarrow>
          (case accessory_lines e accs of
             Inl err \<Rightarrow> Inl err
           | Inr ls \<Rightarrow> Inr (l @ ls)))"

definition variant_summary_lines :: "ProductVariant \<Rightarrow> ustring list" where
  "variant_summary_lines variant =
     [label_product @ pv_name variant] @
     (if opt_truthy (pv_size_details variant)
      then [label_size @ fmt_opt (pv_size_details variant)]
      else if opt_truthy (pv_size variant)
      then [label_size @ fmt_opt (pv_size variant)]
      else []) @
     (if opt_truthy (pv_variant_type variant)
      then [label_kind @ fmt_opt (pv_variant_type variant)]
      else [])"

text \<open>\<^verbatim>\<open>ConversationManager.build_final_summary\<close>.\<close>

definition build_final_summary :: "env \<Rightarrow> database \<Rightarrow> ConversationState \<Rightarrow> error + ustring" where
  "build_final_summary e db st =
     (let lines0 = [summary_title, []];
          lines1 = lines0 @
            (if truthy (selected_category_id st)
             then (case get_category db (selected_category_id st) of
                     Some category \<Rightarrow> [label_category @ cat_name category]
                   | None \<Rightarrow> [])
             else []);
          lines2 = lines1 @
            (if truthy (selected_type_id st)
             then (case get_type db (selected_type_id st) of
                     Some ptype \<Rightarrow> [label_type @ pt_name ptype @ paren_opt (pt_material ptype)]
                   | None \<Rightarrow> [])
             else []);
          lines3 = lines2 @
            (if truthy (selected_variant_id st)
             then (case get_variant db (selected_variant_id st) of
                     Some variant \<Rightarrow> variant_summary_lines variant
                   | None \<Rightarrow> [])
             else []);
          lines4 = lines3 @
            (if truthy (selected_quantity st)
             then [label_quantity @ py_str e (selected_quantity st)]
             else []);
          tail =
            (if truthy (cs_notes st) then [[], label_notes @ py_str e (cs_notes st)] else []) @
            [[], price_line]
      in if truthy (selected_accessories st)
         then (case py_iter (selected_accessories st) of
                 Inl err \<Rightarrow> Inl err
               | Inr accs \<Rightarrow>
                   (case accessory_lines e accs of
                      Inl err \<Rightarrow> Inl err
                    | Inr ls \<Rightarrow> Inr (join_lines (lines4 @ [label_accessories] @ ls @ tail))))
         else Inr (join_lines (lines4 @ tail)))"

definition confirm_message :: "env \<Rightarrow> database \<Rightarrow> ConversationState \<Rightarrow> error + ustring" where
  "confirm_message e db st =
     (case build_final_summary e db st of
        Inl err \<Rightarrow> Inl err
      | Inr summary \<Rightarrow> Inr (summary @ confirm_suffix))"

text \<open>
  \<^verbatim>\<open>ConversationManager.generate_step_message\<close>: the prompt of the current step,
  \<open>None\<close> where the Python returns \<^verbatim>\<open>None\<close>, an error where it raises.
\<close>

definition generate_step_message :: "env \<Rightarrow> database \<Rightarrow> ConversationState \<Rightarrow> error + ustring option" where
  "generate_step_message e db st =
     (if current_step st = PStr (u ''greeting'') then Inr (Some greeting_message)
      else if current_step st = PStr (u ''category'') then Inr (Some (category_message db))
      else if current_step st = PStr (u ''type'')
      then Inr (Some (type_message db (selected_category_id st)))
      else if current_step st = PStr (u ''size'')
      then Inr (Some (size_message db (selected_type_id st)))
      else if current_step st = PStr (u ''variant'')
      then Inr (variant_message e db (selected_type_id st))
      else if current_step st = PStr (u ''quantity'') then Inr (Some (quantity_message db st))
      else if current_step st = PStr (u ''confirm'')
      then (case confirm_message e db st of
              Inl err \<Rightarrow> Inl err
            | Inr m \<Rightarrow> Inr (Some m))
      else Inr (Some default_text))"


section \<open>Orders (services/order\_service.py)\<close>

text \<open>
  \<^verbatim>\<open>ConversationManager.get_order_summary\<close>. The function is annotated to return
  a dictionary; inside the branch for a selected category it returns the greeting text.
\<close>

definition get_order_summary :: "database \<Rightarrow> ConversationState \<Rightarrow> pyval" where
  "get_order_summary db st =
     (let result =
            [(u ''category'', PNone),
             (u ''type'', PNone),
             (u ''variant'', PNone),
             (u ''quantity'', selected_quantity st),
             (u ''accessories'', selected_accessories st),
             (u ''customer_name'', customer_name st)]
      in if truthy (selected_category_id st)
         then (let result1 =
                     (case get_category db (selected_category_id st) of
                        Some cat \<Rightarrow> dict_set result (u ''category'') (PStr (cat_name cat))
                      | None \<Rightarrow> result)
               in PStr (base_greeting @ [10] @ identity_line @ [10] @ follow_up))
         else if truthy (selected_variant_id st)
         then (case get_variant db (selected_variant_id st) of
                 Some variant \<Rightarrow>
                   PDict (dict_set result (u ''variant'')
                     (PDict [(u ''name'', PStr (pv_name variant)),
                             (u ''size'', opt_str (pv_size variant)),
                             (u ''size_details'', opt_str (pv_size_details variant)),
                             (u ''variant_type'', opt_str (pv_variant_type variant)),
                             (u ''min_quantity'', opt_int (pv_min_quantity variant))]))
               | None \<Rightarrow> PDict result)
         else PDict result)"

text \<open>\<^verbatim>\<open>create_order_from_state\<close>: the new row is appended to the table and
  returned.\<close>

definition create_order_from_state :: "database \<Rightarrow> ConversationState \<Rightarrow> nat \<Rightarrow> database \<times> Order" where
  "create_order_from_state db st now =
     (let summary = get_order_summary db st;
          order =
            \<lparr>order_id = next_id (map order_id (orders db)),
             customer_phone = phone_number st,
             order_customer_name = py_or (customer_name st) (PStr unnamed_customer),
             business_name = None,
             order_details = summary,
             total_amount = None,
             invoice_path = None,
             status = u ''PendingApproval'',
             has_capacity = None,
             approved_amount = None,
             estimated_days = None,
             payment_url = None,
             payment_status = u ''Pending'',
             paid_at = None,
             order_notes = None,
             created_at = now\<rparr>
      in (db\<lparr>orders := orders db @ [order]\<rparr>, order))"

text \<open>\<^verbatim>\<open>db.query(Order).get(order_id)\<close>: the position of the row with that key,
  and the row.\<close>

definition order_index :: "database \<Rightarrow> int \<Rightarrow> nat option" where
  "order_index db oid = first_index (\<lambda>ord. order_id ord = oid) (orders db)"


text \<open>\<^verbatim>\<open>set_management_decision\<close>; a missing order raises
  \<^verbatim>\<open>ValueError\<close>.\<close>

definition set_management_decision ::
  "database \<Rightarrow> int \<Rightarrow> bool \<Rightarrow> real option \<Rightarrow> int option \<Rightarrow> error + database \<times> Order" where
  "set_management_decision db oid capacity amount days =
     (case order_index db oid of
        None \<Rightarrow> Inl ValueError
      | Some i \<Rightarrow>
          (let order = (orders db ! i)\<lparr>has_capacity := Some capacity\<rparr>;
               order' =
                 (if \<not> capacity
                  then order\<lparr>status := u ''RejectedNoCapacity''\<rparr>
                  else order\<lparr>approved_amount := amount,
                             estimated_days := days,
                             total_amount := amount,
                             status := u ''ApprovedWaitingPayment''\<rparr>)
           in Inr (db\<lparr>orders := (orders db)[i := order']\<rparr>, order')))"

text \<open>\<^verbatim>\<open>mark_order_paid\<close> (services/payment\_service.py).\<close>

definition mark_order_paid :: "database \<Rightarrow> int \<Rightarrow> nat \<Rightarrow> error + database \<times> Order" where
  "mark_order_paid db oid now =
     (case order_index db oid of
        None \<Rightarrow> Inl ValueError
      | Some i \<Rightarrow>
          (let order = (orders db ! i)
                 \<lparr>payment_status := u ''Paid'', status := u ''Paid'', paid_at := Some now\<rparr>
           in Inr (db\<lparr>orders := (orders db)[i := order]\<rparr>, order)))"


section \<open>The text interpretation adapter (services/ai\_service.py)\<close>

text \<open>The dictionary \<^verbatim>\<open>{"response": ..., "data": ...}\<close> that
  \<^verbatim>\<open>analyze_message\<close> returns.\<close>

record analysis =
  response :: ustring
  data :: pyval

definition json_marker :: ustring where
  "json_marker = u ''---JSON---''"

definition other_data :: pyval where
  "other_data = PDict [(u ''intent'', PStr (u ''other''))]"

definition error_data :: pyval where
  "error_data = PDict [(u ''intent'', PStr (u ''error''))]"

text \<open>
  The body of the \<^verbatim>\<open>try\<close> block of \<^verbatim>\<open>analyze_message\<close>. The call to
  the service may raise; a reply without content makes the test
  \<^verbatim>\<open>"---JSON---" in full_response\<close> raise; the inner \<^verbatim>\<open>try\<close> turns a
  failure of \<^verbatim>\<open>json.loads\<close> into the intent "other".
\<close>

definition analyze_body ::
  "env \<Rightarrow> ustring \<Rightarrow> (ustring \<times> ustring) list option \<Rightarrow> error + analysis" where
  "analyze_body e message conversation_history =
     (case chat_completion e (case conversation_history of None \<Rightarrow> [] | Some h \<Rightarrow> h) message of
        Inl err \<Rightarrow> Inl err
      | Inr None \<Rightarrow> Inl TypeError
      | Inr (Some full_response) \<Rightarrow>
          if contains json_marker full_response
          then (case str_split full_response json_marker of
                  p0 # p1 # rest \<Rightarrow>
                    Inr \<lparr>response = strip p0,
                         data = (case json_loads e (strip p1) of
                                   None \<Rightarrow> other_data
                                 | Some d \<Rightarrow> d)\<rparr>
                | _ \<Rightarrow> Inl IndexError)
          else Inr \<lparr>response = full_response, data = other_data\<rparr>)"

text \<open>\<^verbatim>\<open>analyze_message\<close>: \<^verbatim>\<open>except Exception\<close> answers every failure of
  the body with the fixed reply.\<close>

definition analyze_message ::
  "env \<Rightarrow> ustring \<Rightarrow> (ustring \<times> ustring) list option \<Rightarrow> analysis" where
  "analyze_message e message conversation_history =
     (case analyze_body e message conversation_history of
        Inl err \<Rightarrow> \<lparr>response = error_response_text, data = error_data\<rparr>
      | Inr r \<Rightarrow> r)"


section \<open>One turn of the conversation (main.py)\<close>

text \<open>The keyword lists of \<^verbatim>\<open>process_message_task\<close>, in the order written
  there: the reset commands, and the three vocabularies of the confirm step.\<close>

definition reset_commands :: "ustring list" where
  "reset_commands = [kw_ilghaa, u ''cancel'', kw_bidaya, u ''start'', kw_min_jadid]"

definition affirmative_words :: "ustring list" where
  "affirmative_words = [kw_muwafiq, u ''ok'', kw_naam, kw_tamam]"

definition edit_words :: "ustring list" where
  "edit_words = [kw_taadil, u ''edit'']"

definition cancel_words :: "ustring list" where
  "cancel_words = [kw_ilghaa, kw_alghaa, u ''cancel'']"

text \<open>
  \<^verbatim>\<open>create_invoice\<close> (services/invoice\_service.py) ends by building
  \<^verbatim>\<open>Order(..., product_name=product_name, ...)\<close>. The class
  \<^verbatim>\<open>Order\<close> of database.py has no attribute \<^verbatim>\<open>product_name\<close>, and the
  constructor of a declarative class raises \<^verbatim>\<open>TypeError\<close> for a keyword that
  is not an attribute of the class; nothing has been added to the session by then. So
  every call raises and leaves the tables as they were.
\<close>

definition create_invoice ::
  "database \<Rightarrow> pyval \<Rightarrow> ustring \<Rightarrow> pyval \<Rightarrow> error + database \<times> ustring" where
  "create_invoice db name phone product_name = Inl TypeError"

text \<open>
  The merge of an extracted category: the first category whose name is
  \<^verbatim>\<open>LIKE\<close> the pattern moves the state to step type. The result is the database
  as last committed, and the exception if one was raised.
\<close>

definition merge_category ::
  "env \<Rightarrow> database \<Rightarrow> ustring \<Rightarrow> pyval \<Rightarrow> database \<times> error option" where
  "merge_category e db sender_phone extracted_data =
     (case py_get extracted_data (u ''category'') of
        Inl err \<Rightarrow> (db, Some err)
      | Inr c \<Rightarrow>
          if truthy c
          then (case find (\<lambda>cat. sql_like e (u ''%'' @ py_str e c @ u ''%'') (cat_name cat))
                          (product_categories db) of
                  Some cat \<Rightarrow>
                    (case update_state e db sender_phone
                            [(''selected_category_id'', PInt (cat_id cat)),
                             (''current_step'', PStr (u ''type''))]
                            (utcnow e) of
                       (db1, Inl err) \<Rightarrow> (db1, Some err)
                     | (db1, Inr j) \<Rightarrow> (db1, None))
                | None \<Rightarrow> (db, None))
          else (db, None))"

text \<open>The merge of an extracted quantity (main.py, lines 120 to 124).\<close>

definition merge_quantity ::
  "env \<Rightarrow> database \<Rightarrow> ustring \<Rightarrow> pyval \<Rightarrow> database \<times> error option" where
  "merge_quantity e db sender_phone extracted_data =
     (case py_get extracted_data (u ''quantity'') of
        Inl err \<Rightarrow> (db, Some err)
      | Inr q \<Rightarrow>
          if truthy q
          then (case update_state e db sender_phone
                       [(''selected_quantity'', q),
                        (''current_step'', PStr (u ''confirm''))]
                       (utcnow e) of
                  (db1, Inl err) \<Rightarrow> (db1, Some err)
                | (db1, Inr j) \<Rightarrow> (db1, None))
          else (db, None))"

text \<open>
  The branch for \<^verbatim>\<open>ready_for_invoice\<close>: \<open>i\<close> is the state object of the turn.
  It gives the database and the response text with which the turn goes on.
\<close>

definition invoice_step ::
  "env \<Rightarrow> database \<Rightarrow> ustring \<Rightarrow> nat \<Rightarrow> pyval \<Rightarrow> ustring \<Rightarrow> error + database \<times> ustring" where
  "invoice_step e db sender_phone i extracted_data response_text =
     (case py_get extracted_data (u ''ready_for_invoice'') of
        Inl err \<Rightarrow> Inl err
      | Inr ready \<Rightarrow>
          if truthy ready
          then (let st = state_at db i;
                    order_summary = get_order_summary db st
                in case py_get order_summary (u ''variant'') of
                     Inl err \<Rightarrow> Inl err
                   | Inr variant \<Rightarrow>
                       if truthy variant \<and> truthy (selected_quantity st)
                       then (case py_subscript variant (u ''name'') of
                               Inl err \<Rightarrow> Inl err
                             | Inr product_name \<Rightarrow>
                                 (case create_invoice db
                                         (py_or (customer_name st) (PStr default_customer))
                                         sender_phone product_name of
                                    Inl err \<Rightarrow> Inl err
                                  | Inr (db1, path) \<Rightarrow>
                                      Inr (fst (reset_state db1 sender_phone (utcnow e)),
                                           invoice_text_head @ py_str e product_name @
                                           invoice_text_quantity @
                                           py_str e (selected_quantity (state_at db1 i)) @
                                           invoice_text_tail)))
                       else Inr (db, response_text))
          else Inr (db, response_text))"

text \<open>The two rows added to \<^verbatim>\<open>chat_logs\<close> at the end of an interpreted turn.
  The extracted data is a dictionary when the turn arrives here.\<close>

definition log_interaction ::
  "env \<Rightarrow> database \<Rightarrow> ustring \<Rightarrow> ustring \<Rightarrow> pyval \<Rightarrow> ustring option \<Rightarrow> database" where
  "log_interaction e db sender_phone incoming_msg extracted_data sent =
     db\<lparr>chat_logs := chat_logs db @
          [\<lparr>log_phone_number = sender_phone,
            message_type = u ''incoming'',
            message_content = PStr incoming_msg,
            intent = (case extracted_data of
                        PDict kvs \<Rightarrow> dict_get kvs (u ''intent'')
                      | _ \<Rightarrow> PNone),
            timestamp = utcnow e\<rparr>,
           \<lparr>log_phone_number = sender_phone,
            message_type = u ''outgoing'',
            message_content = opt_str sent,
            intent = PNone,
            timestamp = utcnow e\<rparr>]\<rparr>"

text \<open>
  The part of the \<^verbatim>\<open>try\<close> block from the call of \<^verbatim>\<open>analyze_message\<close>
  on. The result is the database as last committed, with the text given to
  \<^verbatim>\<open>send_response\<close> or the exception that ended the block.
\<close>

definition interpret_turn ::
  "env \<Rightarrow> ustring \<Rightarrow> ustring \<Rightarrow> database \<Rightarrow> nat \<Rightarrow> database \<times> (error + ustring option)" where
  "interpret_turn e incoming_msg sender_phone db i =
     (let result = analyze_message e incoming_msg None;
          response_text = response result;
          extracted_data = data result
      in case merge_category e db sender_phone extracted_data of
           (db1, Some err) \<Rightarrow> (db1, Inl err)
         | (db1, None) \<Rightarrow>
             (case merge_quantity e db1 sender_phone extracted_data of
                (db2, Some err) \<Rightarrow> (db2, Inl err)
              | (db2, None) \<Rightarrow>
                  (case invoice_step e db2 sender_phone i extracted_data response_text of
                     Inl err \<Rightarrow> (db2, Inl err)
                   | Inr (db3, response_text') \<Rightarrow>
                       (case (if response_text' = []
                              then generate_step_message e db3 (state_at db3 i)
                              else Inr (Some response_text')) of
                          Inl err \<Rightarrow> (db3, Inl err)
                        | Inr sent \<Rightarrow>
                            (log_interaction e db3 sender_phone incoming_msg
                               extracted_data sent,
                             Inr sent)))))"

text \<open>The \<^verbatim>\<open>try\<close> block of \<^verbatim>\<open>process_message_task\<close>.\<close>

definition process_body ::
  "env \<Rightarrow> ustring \<Rightarrow> ustring \<Rightarrow> database \<Rightarrow> database \<times> (error + ustring option)" where
  "process_body e incoming_msg sender_phone db0 =
     (let (db, i) = get_or_create_state db0 sender_phone (utcnow e);
          normalized = lower e (strip incoming_msg)
      in if normalized \<in> set reset_commands
         then (let db1 = fst (reset_state db sender_phone (utcnow e))
               in (db1, generate_step_message e db1 (state_at db1 i)))
         else if current_step (state_at db i) = PStr (u ''confirm'') \<and>
                 normalized \<in> set affirmative_words
         then (fst (create_order_from_state db (state_at db i) (utcnow e)),
               Inr (Some order_received_text))
         else if current_step (state_at db i) = PStr (u ''confirm'') \<and>
                 normalized \<in> set edit_words
         then (case update_state e db sender_phone
                      [(''current_step'', PStr (u ''quantity''))] (utcnow e) of
                 (db1, Inl err) \<Rightarrow> (db1, Inl err)
               | (db1, Inr j) \<Rightarrow> (db1, generate_step_message e db1 (state_at db1 i)))
         else if current_step (state_at db i) = PStr (u ''confirm'') \<and>
                 normalized \<in> set cancel_words
         then (fst (reset_state db sender_phone (utcnow e)), Inr (Some order_cancelled_text))
         else interpret_turn e incoming_msg sender_phone db i)"

text \<open>
  \<^verbatim>\<open>process_message_task\<close>: the database after the turn and the text sent to the
  customer. An exception in the block sends the fixed apology.
\<close>

definition process_message_task ::
  "env \<Rightarrow> ustring \<Rightarrow> ustring \<Rightarrow> database \<Rightarrow> database \<times> ustring option" where
  "process_message_task e incoming_msg sender_phone db0 =
     (case process_body e incoming_msg sender_phone db0 of
        (db, Inl err) \<Rightarrow> (db, Some error_msg)
      | (db, Inr sent) \<Rightarrow> (db, sent))"


section \<open>Example data\<close>

text \<open>
  A small catalog, one customer in the middle of a conversation and one order that waits
  for the decision of the management; and two environments, one whose chat service
  answers and one whose chat service raises. \<open>ascii_lower\<close> is \<^verbatim>\<open>str.lower\<close>
  on ASCII text.
\<close>

definition ascii_lower :: "ustring \<Rightarrow> ustring" where
  "ascii_lower s = map (\<lambda>c. if 65 \<le> c \<and> c \<le> 90 then c + 32 else c) s"

definition ex_state :: ConversationState where
  "ex_state =
     \<lparr>cs_id = PInt 1,
      phone_number = PStr (u ''+100''),
      current_step = PStr (u ''confirm''),
      selected_category_id = PInt 1,
      selected_type_id = PInt 1,
      selected_variant_id = PInt 1,
      selected_quantity = PInt 1000,
      selected_accessories = PNone,
      customer_name = PStr (u ''Ali''),
      cs_notes = PStr (u ''red ribbon''),
      last_message = PNone,
      updated_at = PDatetime 7\<rparr>"

definition ex_state_variant :: ConversationState where
  "ex_state_variant =
     ex_state\<lparr>current_step := PStr (u ''variant''), selected_type_id := PInt 10,
              selected_variant_id := PNone, selected_quantity := PNone\<rparr>"

definition ex_order :: Order where
  "ex_order =
     \<lparr>order_id = 1,
      customer_phone = PStr (u ''+200''),
      order_customer_name = PStr (u ''Sara''),
      business_name = None,
      order_details = PDict [(u ''quantity'', PInt 500)],
      total_amount = None,
      invoice_path = None,
      status = u ''PendingApproval'',
      has_capacity = None,
      approved_amount = None,
      estimated_days = None,
      payment_url = None,
      payment_status = u ''Pending'',
      paid_at = None,
      order_notes = None,
      created_at = 3\<rparr>"

definition ex_db :: database where
  "ex_db =
     \<lparr>product_categories = [\<lparr>cat_id = 1, cat_name = u ''Cups'', cat_icon = None\<rparr>],
      product_types =
        [\<lparr>pt_id = 1, pt_category_id = 1, pt_name = u ''Hot Cups'', pt_material = None\<rparr>,
         \<lparr>pt_id = 10, pt_category_id = 1, pt_name = u ''Ice Cream Cups'', pt_material = None\<rparr>],
      product_variants =
        [\<lparr>pv_id = 1, pv_type_id = 1, pv_name = u ''Hot Cup 8oz Double'',
          pv_size = Some (u ''8 oz''), pv_size_details = None,
          pv_variant_type = Some (u ''double wall''), pv_min_quantity = Some 500,
          pv_is_available = Some True\<rparr>,
         \<lparr>pv_id = 2, pv_type_id = 10, pv_name = u ''Ice Cream Cup 4oz'',
          pv_size = Some (u ''4 oz''), pv_size_details = None,
          pv_variant_type = None, pv_min_quantity = Some 500,
          pv_is_available = Some True\<rparr>],
      conversation_states = [ex_state],
      orders = [ex_order],
      chat_logs = []\<rparr>"

definition ex_state_quantity :: ConversationState where
  "ex_state_quantity =
     ex_state\<lparr>current_step := PStr (u ''quantity''), selected_quantity := PNone\<rparr>"

text \<open>An engine for the examples: it turns an integer for a string column into its
  decimal text and a truth value for an integer column into 1 or 0, and refuses every
  other value that is not of the column's type. The attributes of the ORM in the
  examples: three that can be assigned without effect on the columns, and three whose
  assignment raises.\<close>

definition ex_engine :: "ConversationState list \<Rightarrow> string \<Rightarrow> pyval \<Rightarrow> error + pyval" where
  "ex_engine rows column v =
     (case v of
        PInt n \<Rightarrow>
          if column_type column = ColString \<and> column \<noteq> ''phone_number'' \<and>
             - (2 ^ 63) \<le> n \<and> n < 2 ^ 63
          then Inr (PStr (str_int n))
          else Inl InterfaceError
      | PBool b \<Rightarrow>
          if column_type column = ColInteger \<and> column \<noteq> ''id''
          then Inr (PInt (if b then 1 else 0))
          else Inl InterfaceError
      | _ \<Rightarrow> Inl InterfaceError)"

definition ex_orm_attr :: "string \<Rightarrow> bool" where
  "ex_orm_attr key =
     (key \<in> set [''metadata'', ''registry'', ''__tablename__'', ''__class__'', ''__dict__'',
                  ''_sa_instance_state''])"

definition ex_orm_setattr :: "ConversationState \<Rightarrow> string \<Rightarrow> pyval \<Rightarrow> error + ConversationState" where
  "ex_orm_setattr st key v =
     (if key \<in> set [''metadata'', ''registry'', ''__tablename__''] then Inr st
      else Inl TypeError)"

definition ex_env :: env where
  "ex_env =
     \<lparr>lower = ascii_lower,
      repr = (\<lambda>v. []),
      set_order = (\<lambda>xs. xs),
      sql_like = (\<lambda>pattern s. False),
      chat_completion = (\<lambda>history message. Inr (Some (u ''Noted.---JSON---{quantity: 2000}''))),
      json_loads = (\<lambda>s. Some (PDict [(u ''quantity'', PInt 2000)])),
      utcnow = 9,
      orm_attr = ex_orm_attr,
      orm_setattr = ex_orm_setattr,
      engine_store = ex_engine\<rparr>"

definition ex_env_down :: env where
  "ex_env_down = ex_env\<lparr>chat_completion := (\<lambda>history message. Inl ApiError)\<rparr>"

text \<open>An environment whose chat service answers with the empty text, and the databases
  in which the customer is at step variant for the ice cream cups, and at step
  quantity.\<close>

definition ex_env_silent :: env where
  "ex_env_silent = ex_env\<lparr>chat_completion := (\<lambda>history message. Inr (Some []))\<rparr>"

definition ex_db_variant :: database where
  "ex_db_variant = ex_db\<lparr>conversation_states := [ex_state_variant]\<rparr>"

definition ex_db_quantity :: database where
  "ex_db_quantity = ex_db\<lparr>conversation_states := [ex_state_quantity]\<rparr>"


section \<open>Facts about the store\<close>

lemma u_eq_iff: "u a = u b \<longleftrightarrow> a = b"
  by (simp add: u_def inj_map_eq_map inj_on_def)

lemma first_index_Some:
  "first_index P xs = Some i \<Longrightarrow> i < length xs \<and> P (xs ! i)"
proof (induction xs arbitrary: i)
  case Nil
  then show ?case by simp
next
  case (Cons x xs)
  then show ?case by (cases "P x") auto
qed

lemma get_or_create_state_valid:
  assumes "get_or_create_state db phone now = (db1, i)"
  shows "i < length (conversation_states db1)"
    and "phone_number (state_at db1 i) = PStr phone"
  using assms
  by (auto simp: get_or_create_state_def state_at_def new_state_def
      split: option.splits dest: first_index_Some)

lemma get_or_create_state_tables:
  assumes "get_or_create_state db phone now = (db1, i)"
  shows "orders db1 = orders db"
    and "product_categories db1 = product_categories db"
    and "product_types db1 = product_types db"
    and "product_variants db1 = product_variants db"
    and "chat_logs db1 = chat_logs db"
  using assms
  by (auto simp: get_or_create_state_def split: option.splits)

lemma the_state_pair: "the_state (db, i) = state_at db i"
  by (simp add: the_state_def)

lemma the_state_reset_state:
  "get_or_create_state db phone now = (db1, i) \<Longrightarrow>
   the_state (reset_state db phone now) =
     (state_at db1 i)
            \<lparr>current_step := PStr (u ''greeting''),
             selected_category_id := PNone,
             selected_type_id := PNone,
             selected_variant_id := PNone,
             selected_quantity := PNone,
             selected_accessories := PNone,
             cs_notes := PNone,
             updated_at := PDatetime now\<rparr>"
  by (simp add: reset_state_def the_state_def state_at_def get_or_create_state_valid)

lemma ex_db_state:
  "get_or_create_state ex_db (u ''+100'') now = (ex_db, 0)"
  by (simp add: get_or_create_state_def ex_db_def ex_state_def)

lemma state_at_ex_db: "state_at ex_db 0 = ex_state"
  by (simp add: state_at_def ex_db_def)

section \<open>Facts about columns, keyword arguments and the commit\<close>





lemma setattr_same:
  "c \<in> set state_attrs \<Longrightarrow> setattr st c (column_value st c) = st"
  by (auto simp add: getattr_def setattr_def column_value_def state_attrs_def)



lemma apply_kwarg_pair:
  "apply_kwarg e st (k, v) =
     (if k \<in> set state_attrs then Inr (setattr st k v)
      else if orm_attr e k then orm_setattr e st k v else Inr st)"
  by (simp add: apply_kwarg_def hasattr_def)







lemma store_columns_ok:
  "list_all (\<lambda>c. c \<in> set state_attrs \<and> commit_column e rows old new c = Inr (column_value new c)) cs
   \<Longrightarrow> store_columns e rows old new cs new = Inr new"
  by (induction cs) (simp_all add: setattr_same)

lemma commit_refresh_ok:
  "list_all (\<lambda>c. commit_column e rows old new c = Inr (column_value new c)) state_attrs
   \<Longrightarrow> commit_refresh e rows old new = Inr new"
  unfolding commit_refresh_def
  by (rule store_columns_ok) (simp add: list_all_iff)

lemma update_state_cases:
  assumes g: "get_or_create_state db phone now = (db1, i)"
  shows "update_state e db phone kwargs now = (db, Inl TypeError) \<or>
         (\<exists>err. update_state e db phone kwargs now = (db1, Inl err)) \<or>
         (\<exists>st st'. apply_kwargs e (state_at db1 i) kwargs = Inr st \<and>
            commit_refresh e (conversation_states db1) (state_at db1 i)
              (st\<lparr>updated_at := PDatetime now\<rparr>) = Inr st' \<and>
            update_state e db phone kwargs now =
              (db1\<lparr>conversation_states := (conversation_states db1)[i := st']\<rparr>, Inr i))"
proof (cases "''self'' \<in> fst ` set kwargs \<or> ''phone_number'' \<in> fst ` set kwargs")
  case True
  then show ?thesis by (simp only: update_state_def if_True simp_thms)
next
  case False
  then have u: "update_state e db phone kwargs now =
      (case apply_kwargs e (state_at db1 i) kwargs of
         Inl err \<Rightarrow> (db1, Inl err)
       | Inr st \<Rightarrow>
           (case commit_refresh e (conversation_states db1) (state_at db1 i)
                   (st\<lparr>updated_at := PDatetime now\<rparr>) of
              Inl err \<Rightarrow> (db1, Inl err)
            | Inr st' \<Rightarrow>
                (db1\<lparr>conversation_states := (conversation_states db1)[i := st']\<rparr>, Inr i)))"
    by (simp only: update_state_def if_False g Let_def prod.case)
  show ?thesis
  proof (cases "apply_kwargs e (state_at db1 i) kwargs")
    case (Inl err)
    with u show ?thesis by simp
  next
    case st: (Inr st)
    show ?thesis
    proof (cases "commit_refresh e (conversation_states db1) (state_at db1 i)
                    (st\<lparr>updated_at := PDatetime now\<rparr>)")
      case (Inl err)
      with u st show ?thesis by simp
    next
      case (Inr st')
      with u st show ?thesis by simp
    qed
  qed
qed


lemma update_state_tables:
  "orders (fst (update_state e db phone kwargs now)) = orders db"
  "product_categories (fst (update_state e db phone kwargs now)) = product_categories db"
  "product_types (fst (update_state e db phone kwargs now)) = product_types db"
  "product_variants (fst (update_state e db phone kwargs now)) = product_variants db"
  "chat_logs (fst (update_state e db phone kwargs now)) = chat_logs db"
proof -
  obtain db1 i where g: "get_or_create_state db phone now = (db1, i)"
    by (cases "get_or_create_state db phone now")
  note t = get_or_create_state_tables [OF g]
  from update_state_cases [OF g, of e kwargs] t
  show "orders (fst (update_state e db phone kwargs now)) = orders db" by auto
  from update_state_cases [OF g, of e kwargs] t
  show "product_categories (fst (update_state e db phone kwargs now)) = product_categories db"
    by auto
  from update_state_cases [OF g, of e kwargs] t
  show "product_types (fst (update_state e db phone kwargs now)) = product_types db" by auto
  from update_state_cases [OF g, of e kwargs] t
  show "product_variants (fst (update_state e db phone kwargs now)) = product_variants db"
    by auto
  from update_state_cases [OF g, of e kwargs] t
  show "chat_logs (fst (update_state e db phone kwargs now)) = chat_logs db" by auto
qed

section \<open>Facts about lookups and variant kinds\<close>

lemma first_index_update:
  "first_index P xs = Some i \<Longrightarrow> P y \<Longrightarrow> first_index P (xs[i := y]) = Some i"
proof (induction xs arbitrary: i)
  case Nil
  then show ?case by simp
next
  case (Cons x xs)
  then show ?case
    by (cases "P x") (auto split: nat.splits)
qed

lemma first_index_find:
  "first_index P xs = Some i \<Longrightarrow> find P xs = Some (xs ! i)"
proof (induction xs arbitrary: i)
  case Nil
  then show ?case by simp
next
  case (Cons x xs)
  then show ?case by (cases "P x") auto
qed

lemma first_index_append_new:
  "first_index P xs = None \<Longrightarrow> P y \<Longrightarrow> first_index P (xs @ [y]) = Some (length xs)"
  by (induction xs) (auto split: if_splits)


lemma add_variant_type_empty:
  "add_variant_type acc v = [] \<longleftrightarrow> acc = [] \<and> \<not> opt_truthy (pv_variant_type v)"
  by (cases "pv_variant_type v") (auto simp: add_variant_type_def opt_truthy_def)

lemma foldl_add_variant_type_empty:
  "foldl add_variant_type acc vs = [] \<longleftrightarrow>
     acc = [] \<and> (\<forall>v \<in> set vs. \<not> opt_truthy (pv_variant_type v))"
proof (induction vs arbitrary: acc)
  case Nil
  then show ?case by simp
next
  case (Cons v vs)
  show ?case
    by (auto simp: Cons.IH add_variant_type_empty)
qed


section \<open>Facts about the state of a customer\<close>

lemma get_or_create_state_index:
  assumes "get_or_create_state db phone now = (db1, i)"
  shows "first_index (\<lambda>s. phone_number s = PStr phone) (conversation_states db1) = Some i"
  using assms
  by (auto simp: get_or_create_state_def new_state_def first_index_append_new
      split: option.splits)

lemma get_or_create_state_again:
  assumes "get_or_create_state db phone now = (db1, i)"
  shows "get_or_create_state db1 phone now' = (db1, i)"
  using get_or_create_state_index [OF assms]
  by (simp add: get_or_create_state_def)

lemma reset_state_tables:
  "orders (fst (reset_state db phone now)) = orders db"
  "product_categories (fst (reset_state db phone now)) = product_categories db"
  "product_types (fst (reset_state db phone now)) = product_types db"
  "product_variants (fst (reset_state db phone now)) = product_variants db"
  "chat_logs (fst (reset_state db phone now)) = chat_logs db"
  by (cases "get_or_create_state db phone now";
      simp add: reset_state_def get_or_create_state_tables)+

lemma state_of_stored:
  assumes "first_index (\<lambda>s. phone_number s = PStr phone) xs = Some i"
    and "phone_number st = PStr phone"
  shows "find (\<lambda>s. phone_number s = PStr phone) (xs[i := st]) = Some st"
proof -
  from assms(1) have "i < length xs" by (auto dest: first_index_Some)
  moreover from assms have
    "first_index (\<lambda>s. phone_number s = PStr phone) (xs[i := st]) = Some i"
    by (simp add: first_index_update)
  ultimately show ?thesis by (auto dest: first_index_find)
qed

lemma state_of_reset_state:
  "state_of (fst (reset_state db phone now)) phone = Some (the_state (reset_state db phone now))"
proof -
  obtain db1 i where g: "get_or_create_state db phone now = (db1, i)"
    by (cases "get_or_create_state db phone now")
  show ?thesis
    using get_or_create_state_valid [OF g] get_or_create_state_index [OF g]
    by (simp add: state_of_def reset_state_def g the_state_def state_at_def state_of_stored)
qed

lemma generate_step_message_greeting:
  "current_step st = PStr (u ''greeting'') \<Longrightarrow>
   generate_step_message e db st = Inr (Some greeting_message)"
  by (simp add: generate_step_message_def)

lemma confirm_columns_stored:
  assumes "- (2 ^ 63) \<le> n" and "n < 2 ^ 63"
  shows "commit_refresh e rows old
           (old\<lparr>selected_quantity := PInt n, current_step := PStr (u ''confirm''),
                updated_at := PDatetime now\<rparr>) =
         Inr (old\<lparr>selected_quantity := PInt n, current_step := PStr (u ''confirm''),
                  updated_at := PDatetime now\<rparr>)"
proof (rule commit_refresh_ok)
  show "list_all (\<lambda>c. commit_column e rows old
           (old\<lparr>selected_quantity := PInt n, current_step := PStr (u ''confirm''),
                updated_at := PDatetime now\<rparr>) c =
         Inr (column_value
           (old\<lparr>selected_quantity := PInt n, current_step := PStr (u ''confirm''),
                updated_at := PDatetime now\<rparr>) c)) state_attrs"
    using assms
    by (simp add: state_attrs_def commit_column_def column_value_def getattr_def
        store_value_def column_type_def valid_text_def u_def)
qed

lemma update_state_quantity:
  assumes g: "get_or_create_state db phone now = (db1, i)"
    and "- (2 ^ 63) \<le> n" and "n < 2 ^ 63"
  shows "update_state e db phone
           [(''selected_quantity'', PInt n), (''current_step'', PStr (u ''confirm''))] now =
         (db1\<lparr>conversation_states := (conversation_states db1)
              [i := (state_at db1 i)\<lparr>selected_quantity := PInt n,
                                      current_step := PStr (u ''confirm''),
                                      updated_at := PDatetime now\<rparr>]\<rparr>, Inr i)"
proof -
  have a: "apply_kwargs e (state_at db1 i)
      [(''selected_quantity'', PInt n), (''current_step'', PStr (u ''confirm''))] =
      Inr ((state_at db1 i)\<lparr>selected_quantity := PInt n, current_step := PStr (u ''confirm'')\<rparr>)"
    by (simp add: apply_kwarg_pair state_attrs_def setattr_def)
  show ?thesis
    by (simp add: update_state_def g a confirm_columns_stored [OF assms(2,3)]
        del: apply_kwargs.simps)
qed

lemma ex_db_quantity_state:
  "get_or_create_state ex_db_quantity (u ''+100'') now = (ex_db_quantity, 0)"
  by (simp add: get_or_create_state_def ex_db_quantity_def ex_db_def ex_state_quantity_def
      ex_state_def)


section \<open>Facts about the table of orders\<close>

lemma update_state_orders:
  "update_state e db phone kwargs now = (d, r) \<Longrightarrow> orders d = orders db"
  using update_state_tables(1) [of e db phone kwargs now] by simp

lemma merge_category_orders:
  "merge_category e db phone x = (db1, r) \<Longrightarrow> orders db1 = orders db"
  by (auto simp: merge_category_def dest: update_state_orders
      split: sum.splits if_splits option.splits prod.splits)

lemma merge_quantity_orders:
  "merge_quantity e db phone x = (db1, r) \<Longrightarrow> orders db1 = orders db"
  by (auto simp: merge_quantity_def dest: update_state_orders
      split: sum.splits if_splits prod.splits)

lemma invoice_step_orders:
  "invoice_step e db phone i x r = Inr (db1, r') \<Longrightarrow> orders db1 = orders db"
  by (auto simp: invoice_step_def create_invoice_def Let_def split: sum.splits if_splits)

lemma log_interaction_orders:
  "orders (log_interaction e db phone m x sent) = orders db"
  by (simp add: log_interaction_def)

lemma interpret_turn_orders:
  "orders (fst (interpret_turn e m phone db i)) = orders db"
  by (auto simp: interpret_turn_def Let_def log_interaction_orders
      dest!: merge_category_orders merge_quantity_orders invoice_step_orders
      split: sum.splits prod.splits option.splits)

lemma create_order_from_state_orders:
  "orders (fst (create_order_from_state db st now)) =
     orders db @ [snd (create_order_from_state db st now)]"
  by (simp add: create_order_from_state_def Let_def)

lemma process_body_orders:
  "\<exists>new. orders (fst (process_body e m phone db)) = orders db @ new"
proof -
  obtain db1 i where g: "get_or_create_state db phone (utcnow e) = (db1, i)"
    by (cases "get_or_create_state db phone (utcnow e)")
  note t = get_or_create_state_tables(1) [OF g]
  obtain d r where up: "update_state e db1 phone
      [(''current_step'', PStr (u ''quantity''))] (utcnow e) = (d, r)"
    by (cases "update_state e db1 phone [(''current_step'', PStr (u ''quantity''))] (utcnow e)")
  note ut = update_state_orders [OF up]
  show ?thesis
    by (cases r)
       (simp_all add: process_body_def g Let_def reset_state_tables up ut
        interpret_turn_orders create_order_from_state_orders t)
qed

lemma process_message_task_orders:
  "\<exists>new. orders (fst (process_message_task e m phone db)) = orders db @ new"
proof -
  obtain d r where b: "process_body e m phone db = (d, r)"
    by (cases "process_body e m phone db")
  with process_body_orders [of e m phone db] show ?thesis
    by (cases r) (auto simp: process_message_task_def)
qed

lemma map_update_same:
  "i < length xs \<Longrightarrow> f y = f (xs ! i) \<Longrightarrow> map f (xs[i := y]) = map f xs"
  by (simp add: map_update list_update_same_conv)

lemma order_index_valid: "order_index db oid = Some i \<Longrightarrow> i < length (orders db)"
  by (auto simp: order_index_def dest: first_index_Some)

lemma affirmative_turn:
  assumes g: "get_or_create_state db0 phone (utcnow e) = (db, i)"
    and n: "lower e (strip m) \<notin> set reset_commands"
    and c: "current_step (state_at db i) = PStr (u ''confirm'')"
    and a: "lower e (strip m) \<in> set affirmative_words"
  shows "process_message_task e m phone db0 =
           (fst (create_order_from_state db (state_at db i) (utcnow e)),
            Some order_received_text)"
  using n c a by (simp add: process_message_task_def process_body_def g Let_def)

lemma create_order_from_state_states:
  "conversation_states (fst (create_order_from_state db st now)) = conversation_states db"
  by (simp add: create_order_from_state_def Let_def)

lemma ok_normalized:
  "lower ex_env (strip (u ''ok'')) \<notin> set reset_commands \<and>
   lower ex_env (strip (u ''ok'')) \<in> set affirmative_words"
  by (simp add: ex_env_def ascii_lower_def strip_def is_space_def u_def reset_commands_def
      affirmative_words_def kw_ilghaa_def kw_bidaya_def kw_min_jadid_def)

lemma get_order_summary_category:
  "truthy (selected_category_id st) \<Longrightarrow>
   get_order_summary db st = PStr (base_greeting @ [10] @ identity_line @ [10] @ follow_up)"
  by (simp add: get_order_summary_def Let_def)


section \<open>Facts about partial updates and about the prompt of the variant step\<close>








lemma variant_step_skipped_without_kinds:
  assumes "current_step st = PStr (u ''variant'')"
  shows "(\<forall>v \<in> set (variants_of_type db (selected_type_id st)). \<not> opt_truthy (pv_variant_type v))
         \<longleftrightarrow> generate_step_message e db st = Inr None"
proof -
  have "generate_step_message e db st = Inr (variant_message e db (selected_type_id st))"
    using assms by (simp add: generate_step_message_def u_eq_iff)
  moreover have "variant_message e db (selected_type_id st) = None \<longleftrightarrow>
      variant_types db (selected_type_id st) = []"
    by (simp add: variant_message_def Let_def)
  ultimately show ?thesis
    by (simp add: variant_types_def foldl_add_variant_type_empty)
qed

lemma ex_silent_analysis:
  "analyze_message ex_env_silent m None = \<lparr>response = [], data = other_data\<rparr>"
  by (simp add: analyze_message_def analyze_body_def ex_env_silent_def ex_env_def
      json_marker_def u_def)

lemma other_data_get:
  "key \<noteq> ''intent'' \<Longrightarrow> py_get other_data (u key) = Inr PNone"
  by (simp add: other_data_def py_get_def dict_get_def u_eq_iff)

lemma ex_variant_prompt:
  "generate_step_message ex_env_silent ex_db_variant ex_state_variant = Inr None"
proof -
  have c: "current_step ex_state_variant = PStr (u ''variant'')"
    by (simp add: ex_state_variant_def)
  have "\<forall>v \<in> set (variants_of_type ex_db_variant (selected_type_id ex_state_variant)).
      \<not> opt_truthy (pv_variant_type v)"
    by (simp add: variants_of_type_def ex_db_variant_def ex_db_def ex_state_variant_def
        opt_truthy_def)
  with variant_step_skipped_without_kinds [OF c] show ?thesis by blast
qed

lemma ex_db_variant_state:
  "get_or_create_state ex_db_variant (u ''+100'') now = (ex_db_variant, 0)"
  by (simp add: get_or_create_state_def ex_db_variant_def ex_db_def ex_state_variant_def
      ex_state_def)

lemma state_at_ex_db_variant: "state_at ex_db_variant 0 = ex_state_variant"
  by (simp add: state_at_def ex_db_variant_def ex_db_def)

lemma ex_variant_interpret_turn:
  "interpret_turn ex_env_silent m (u ''+100'') ex_db_variant 0 =
     (log_interaction ex_env_silent ex_db_variant (u ''+100'') m other_data None, Inr None)"
  by (simp add: interpret_turn_def ex_silent_analysis merge_category_def merge_quantity_def
      invoice_step_def other_data_get state_at_ex_db_variant ex_variant_prompt)

lemma hello_normalized:
  "lower ex_env_silent (strip (u ''hello'')) \<notin> set reset_commands"
  by (simp add: ex_env_silent_def ex_env_def ascii_lower_def strip_def is_space_def u_def
      reset_commands_def kw_ilghaa_def kw_bidaya_def kw_min_jadid_def)


section \<open>An affirmative reply at the confirm step\<close>

text \<open>
  C1 on the code. The customer of the example is at step confirm and writes "ok". The
  turn appends one order to the table, and it leaves the state of the customer as it
  was: at step confirm, with the selections in place. A second "ok" appends a second
  order. The state is not reset to greeting as C1 says: this branch of
  \<^verbatim>\<open>process_message_task\<close> has no call of \<open>reset_state\<close>, which the
  branches for \<^verbatim>\<open>ready_for_invoice\<close> and for the cancellation at the confirm
  step have.
\<close>

theorem confirm_ok_keeps_state_at_confirm:
  "state_of ex_db (u ''+100'') = Some ex_state \<and>
   current_step ex_state = PStr (u ''confirm'') \<and>
   lower ex_env (strip (u ''ok'')) \<in> set affirmative_words \<and>
   orders (fst (process_message_task ex_env (u ''ok'') (u ''+100'') ex_db)) =
     orders ex_db @ [snd (create_order_from_state ex_db ex_state 9)] \<and>
   state_of (fst (process_message_task ex_env (u ''ok'') (u ''+100'') ex_db)) (u ''+100'') =
     Some ex_state \<and>
   length (orders (fst (process_message_task ex_env (u ''ok'') (u ''+100'')
     (fst (process_message_task ex_env (u ''ok'') (u ''+100'') ex_db))))) =
     length (orders ex_db) + 2"
proof -
  let ?db1 = "fst (create_order_from_state ex_db ex_state 9)"
  have s: "state_of ex_db (u ''+100'') = Some ex_state"
    by (simp add: state_of_def ex_db_def ex_state_def)
  have c: "current_step ex_state = PStr (u ''confirm'')"
    by (simp add: ex_state_def)
  have now: "utcnow ex_env = 9" by (simp add: ex_env_def)
  have g: "get_or_create_state ex_db (u ''+100'') (utcnow ex_env) = (ex_db, 0)"
    by (rule ex_db_state)
  have t1: "process_message_task ex_env (u ''ok'') (u ''+100'') ex_db =
      (?db1, Some order_received_text)"
    using affirmative_turn [OF g] ok_normalized c
    by (simp add: state_at_ex_db now)
  have cs: "conversation_states ?db1 = conversation_states ex_db"
    by (rule create_order_from_state_states)
  have g1: "get_or_create_state ?db1 (u ''+100'') (utcnow ex_env) = (?db1, 0)"
    by (simp add: get_or_create_state_def cs) (simp add: ex_db_def ex_state_def)
  have st1: "state_at ?db1 0 = ex_state"
    by (simp add: state_at_def cs) (simp add: ex_db_def)
  have t2: "process_message_task ex_env (u ''ok'') (u ''+100'') ?db1 =
      (fst (create_order_from_state ?db1 ex_state 9), Some order_received_text)"
    using affirmative_turn [OF g1] ok_normalized c
    by (simp add: st1 now)
  have s1: "state_of ?db1 (u ''+100'') = Some ex_state"
    using s by (simp add: state_of_def cs)
  show ?thesis
    using ok_normalized
    by (simp add: s c t1 t2 s1 create_order_from_state_orders)
qed

section \<open>The snapshot of an order\<close>

text \<open>
  C2 on the code. The state of the example has category 1, variant 1 and quantity 1000
  selected. The order made from it stores as its details the greeting text, which
  \<open>get_order_summary\<close> returns whenever a category is selected, and not a mapping with
  the category, the variant and the quantity: asking the stored details for the
  quantity fails. A reset of the conversation after that leaves the table of orders,
  and so the stored details, as they are.
\<close>

theorem order_snapshot_is_greeting_text:
  "selected_category_id ex_state = PInt 1 \<and>
   selected_variant_id ex_state = PInt 1 \<and>
   selected_quantity ex_state = PInt 1000 \<and>
   order_details (snd (create_order_from_state ex_db ex_state 9)) = PStr greeting_message \<and>
   py_get (order_details (snd (create_order_from_state ex_db ex_state 9))) (u ''quantity'') =
     Inl AttributeError \<and>
   orders (fst (reset_state (fst (create_order_from_state ex_db ex_state 9)) (u ''+100'') 9)) =
     orders (fst (create_order_from_state ex_db ex_state 9))"
proof -
  have t: "truthy (selected_category_id ex_state)"
    by (simp add: ex_state_def)
  have "order_details (snd (create_order_from_state ex_db ex_state 9)) = PStr greeting_message"
    by (simp add: create_order_from_state_def Let_def get_order_summary_category [OF t]
        greeting_message_def)
  then show ?thesis
    by (simp add: ex_state_def py_get_def reset_state_tables)
qed

section \<open>Resetting a conversation\<close>

text \<open>
  C3, as the code has it. For every customer identifier and every database, the state
  that \<open>reset_state\<close> returns is at step greeting, its selected category, type,
  variant, quantity and accessories and its notes are \<^verbatim>\<open>None\<close>, and its phone
  number is the customer identifier; the customer name and the last message are those
  of the state before the reset (the state found or created for that customer).
\<close>

theorem reset_state_clears_selections:
  "let s0 = the_state (get_or_create_state db phone now);
       s = the_state (reset_state db phone now)
   in current_step s = PStr (u ''greeting'') \<and>
      selected_category_id s = PNone \<and>
      selected_type_id s = PNone \<and>
      selected_variant_id s = PNone \<and>
      selected_quantity s = PNone \<and>
      selected_accessories s = PNone \<and>
      cs_notes s = PNone \<and>
      phone_number s = PStr phone \<and>
      customer_name s = customer_name s0 \<and>
      last_message s = last_message s0"
proof -
  obtain db1 i where g: "get_or_create_state db phone now = (db1, i)"
    by (cases "get_or_create_state db phone now")
  show ?thesis
    using get_or_create_state_valid(2) [OF g]
    by (simp add: the_state_reset_state [OF g] Let_def g the_state_pair)
qed

text \<open>
  C3 as stated fails: the customer named Ali is still named Ali after the reset, so the
  customer name of the returned state is not \<^verbatim>\<open>None\<close>.
\<close>

theorem reset_state_keeps_customer_name:
  "customer_name (the_state (reset_state ex_db (u ''+100'') 9)) = PStr (u ''Ali'') \<and>
   customer_name (the_state (reset_state ex_db (u ''+100'') 9)) \<noteq> PNone"
  by (simp add: the_state_reset_state [OF ex_db_state] state_at_ex_db ex_state_def)


section \<open>The reset commands\<close>

text \<open>
  C4. For every database, so for a conversation at any step, and every message that is
  one of the reset commands once trimmed and lowercased: the turn leaves the table of
  orders as it was (no order is created), sends the greeting, and leaves the customer's
  state at step greeting with the selections cleared.
\<close>

theorem cancel_resets_without_order:
  assumes "lower e (strip incoming_msg) \<in> set reset_commands"
  shows "orders (fst (process_message_task e incoming_msg phone db)) = orders db \<and>
         snd (process_message_task e incoming_msg phone db) = Some greeting_message \<and>
         (\<exists>s. state_of (fst (process_message_task e incoming_msg phone db)) phone = Some s \<and>
              current_step s = PStr (u ''greeting'') \<and>
              selected_category_id s = PNone \<and>
              selected_type_id s = PNone \<and>
              selected_variant_id s = PNone \<and>
              selected_quantity s = PNone \<and>
              selected_accessories s = PNone)"
proof -
  obtain db1 i where g: "get_or_create_state db phone (utcnow e) = (db1, i)"
    by (cases "get_or_create_state db phone (utcnow e)")
  note g' = get_or_create_state_again [OF g, of "utcnow e"]
  let ?r = "reset_state db1 phone (utcnow e)"
  have i: "snd ?r = i"
    by (simp add: reset_state_def g')
  then have st: "state_at (fst ?r) i = the_state ?r"
    by (simp add: the_state_def)
  have cs: "current_step (the_state ?r) = PStr (u ''greeting'')"
    by (simp add: the_state_reset_state [OF g'])
  have body: "process_body e incoming_msg phone db =
      (fst ?r, Inr (Some greeting_message))"
    using assms
    by (simp add: process_body_def g Let_def st generate_step_message_greeting [OF cs])
  have p: "process_message_task e incoming_msg phone db = (fst ?r, Some greeting_message)"
    by (simp add: process_message_task_def body)
  have o: "orders (fst ?r) = orders db"
    by (simp add: reset_state_tables get_or_create_state_tables [OF g])
  show ?thesis
    by (simp add: p o state_of_reset_state the_state_reset_state [OF g'])
qed

text \<open>The customer of the example, at step confirm, writes " Cancel ".\<close>

theorem cancel_resets_without_order_witness:
  "lower ex_env (strip (u '' Cancel '')) \<in> set reset_commands \<and>
   current_step ex_state = PStr (u ''confirm'') \<and>
   state_of ex_db (u ''+100'') = Some ex_state \<and>
   orders (fst (process_message_task ex_env (u '' Cancel '') (u ''+100'') ex_db)) = orders ex_db \<and>
   (\<exists>s. state_of (fst (process_message_task ex_env (u '' Cancel '') (u ''+100'') ex_db))
          (u ''+100'') = Some s \<and>
        current_step s = PStr (u ''greeting'') \<and>
        selected_quantity s = PNone)"
proof -
  have k: "lower ex_env (strip (u '' Cancel '')) \<in> set reset_commands"
    by (simp add: ex_env_def ascii_lower_def strip_def is_space_def u_def reset_commands_def)
  have c: "current_step ex_state = PStr (u ''confirm'')"
    by (simp add: ex_state_def)
  have s: "state_of ex_db (u ''+100'') = Some ex_state"
    by (simp add: state_of_def ex_db_def ex_state_def)
  from cancel_resets_without_order [OF k, of "u ''+100''" ex_db] k c s
  show ?thesis by auto
qed

section \<open>Types without variant kinds\<close>

text \<open>
  C5 on the code. The customer of the example is at step variant for the ice cream cups,
  whose one variant has no kind. Prompt generation returns \<^verbatim>\<open>None\<close> for that
  state, the value that \<^verbatim>\<open>_variant_message\<close> returns under the comment "Skip
  this step". In the turn for the message "hello", for which the interpretation gives no
  text and no fields, \<^verbatim>\<open>process_message_task\<close> hands that
  \<^verbatim>\<open>None\<close> to \<^verbatim>\<open>send_response\<close> and leaves the state as it was, at
  step variant: no variant prompt is presented, but the engine does not advance past
  the step as C5 says.
\<close>

theorem variant_skip_leaves_step_at_variant:
  "state_of ex_db_variant (u ''+100'') = Some ex_state_variant \<and>
   current_step ex_state_variant = PStr (u ''variant'') \<and>
   map pv_variant_type (variants_of_type ex_db_variant (selected_type_id ex_state_variant)) =
     [None] \<and>
   generate_step_message ex_env_silent ex_db_variant ex_state_variant = Inr None \<and>
   snd (process_message_task ex_env_silent (u ''hello'') (u ''+100'') ex_db_variant) = None \<and>
   state_of (fst (process_message_task ex_env_silent (u ''hello'') (u ''+100'') ex_db_variant))
     (u ''+100'') = Some ex_state_variant"
proof -
  have s: "state_of ex_db_variant (u ''+100'') = Some ex_state_variant"
    by (simp add: state_of_def ex_db_variant_def ex_db_def ex_state_variant_def ex_state_def)
  have c: "current_step ex_state_variant = PStr (u ''variant'')"
    by (simp add: ex_state_variant_def)
  have v: "map pv_variant_type
      (variants_of_type ex_db_variant (selected_type_id ex_state_variant)) = [None]"
    by (simp add: variants_of_type_def ex_db_variant_def ex_db_def ex_state_variant_def)
  have b: "process_body ex_env_silent (u ''hello'') (u ''+100'') ex_db_variant =
      (log_interaction ex_env_silent ex_db_variant (u ''+100'') (u ''hello'') other_data None,
       Inr None)"
    using hello_normalized
    by (simp add: process_body_def ex_db_variant_state state_at_ex_db_variant c u_eq_iff
        ex_variant_interpret_turn)
  have p: "process_message_task ex_env_silent (u ''hello'') (u ''+100'') ex_db_variant =
      (log_interaction ex_env_silent ex_db_variant (u ''+100'') (u ''hello'') other_data None,
       None)"
    by (simp add: process_message_task_def b)
  have l: "state_of (log_interaction ex_env_silent ex_db_variant (u ''+100'') (u ''hello'')
      other_data None) (u ''+100'') = Some ex_state_variant"
    using s by (simp add: state_of_def log_interaction_def)
  show ?thesis
    by (simp add: s c v ex_variant_prompt p l)
qed

section \<open>An extracted quantity\<close>

text \<open>
  C6, as the code has it. Whenever the extracted fields hold a quantity that is an
  integer other than zero and that the integer column can hold (from \<open>- 2 ^ 63\<close> up to,
  not including, \<open>2 ^ 63\<close>), the merge of the quantity (main.py, lines 120 to 124)
  raises nothing and leaves the customer's state with that value as selected quantity
  and with current step confirm. Nothing is assumed about the category, the type or the
  variant of the state: they stay as they were, resolved or not.
\<close>

theorem storable_quantity_moves_to_confirm:
  assumes "py_get extracted_data (u ''quantity'') = Inr (PInt n)"
    and "n \<noteq> 0" and "- (2 ^ 63) \<le> n" and "n < 2 ^ 63"
  shows "\<exists>db' s. merge_quantity e db phone extracted_data = (db', None) \<and>
           state_of db' phone = Some s \<and>
           selected_quantity s = PInt n \<and>
           current_step s = PStr (u ''confirm'') \<and>
           selected_category_id s =
             selected_category_id (the_state (get_or_create_state db phone (utcnow e))) \<and>
           selected_type_id s =
             selected_type_id (the_state (get_or_create_state db phone (utcnow e))) \<and>
           selected_variant_id s =
             selected_variant_id (the_state (get_or_create_state db phone (utcnow e)))"
proof -
  obtain db1 i where g: "get_or_create_state db phone (utcnow e) = (db1, i)"
    by (cases "get_or_create_state db phone (utcnow e)")
  let ?s = "(state_at db1 i)\<lparr>selected_quantity := PInt n, current_step := PStr (u ''confirm''),
                              updated_at := PDatetime (utcnow e)\<rparr>"
  let ?db = "db1\<lparr>conversation_states := (conversation_states db1)[i := ?s]\<rparr>"
  have m: "merge_quantity e db phone extracted_data = (?db, None)"
    using assms(1,2)
    by (simp add: merge_quantity_def update_state_quantity [OF g assms(3,4)])
  have s: "state_of ?db phone = Some ?s"
    using get_or_create_state_valid [OF g] get_or_create_state_index [OF g]
    by (simp add: state_of_def state_of_stored)
  show ?thesis
    by (simp add: m s g the_state_pair)
qed

text \<open>A customer who is new, with nothing selected, is at step confirm with quantity 2000
  after the merge.\<close>

theorem storable_quantity_moves_to_confirm_witness:
  "py_get (PDict [(u ''quantity'', PInt 2000)]) (u ''quantity'') = Inr (PInt 2000) \<and>
   state_of ex_db (u ''+300'') = None \<and>
   (\<exists>db' s. merge_quantity ex_env ex_db (u ''+300'') (PDict [(u ''quantity'', PInt 2000)]) =
              (db', None) \<and>
      state_of db' (u ''+300'') = Some s \<and>
      selected_quantity s = PInt 2000 \<and>
      current_step s = PStr (u ''confirm'') \<and>
      selected_variant_id s = PNone)"
proof -
  have p: "py_get (PDict [(u ''quantity'', PInt 2000)]) (u ''quantity'') = Inr (PInt 2000)"
    by (simp add: py_get_def dict_get_def)
  have n: "state_of ex_db (u ''+300'') = None"
    by (simp add: state_of_def ex_db_def ex_state_def u_eq_iff)
  have g: "selected_variant_id (the_state (get_or_create_state ex_db (u ''+300'') (utcnow ex_env))) = PNone"
    by (simp add: get_or_create_state_def ex_db_def ex_state_def u_eq_iff the_state_def
        state_at_def new_state_def)
  from storable_quantity_moves_to_confirm [OF p, of ex_env ex_db "u ''+300''"] p n g
  show ?thesis by auto
qed

text \<open>
  C6 as stated fails: the extracted fields hold the quantity \<open>2 ^ 63\<close>, the commit
  raises \<^verbatim>\<open>OverflowError\<close>, and the customer stays at step quantity with no
  quantity selected.
\<close>

theorem quantity_beyond_column_not_stored:
  "py_get (PDict [(u ''quantity'', PInt 9223372036854775808)]) (u ''quantity'') =
     Inr (PInt 9223372036854775808) \<and>
   truthy (PInt 9223372036854775808) \<and>
   state_of ex_db_quantity (u ''+100'') = Some ex_state_quantity \<and>
   current_step ex_state_quantity = PStr (u ''quantity'') \<and>
   selected_quantity ex_state_quantity = PNone \<and>
   merge_quantity ex_env ex_db_quantity (u ''+100'')
     (PDict [(u ''quantity'', PInt 9223372036854775808)]) =
     (ex_db_quantity, Some OverflowError)"
proof -
  let ?q = "PInt 9223372036854775808"
  let ?old = "state_at ex_db_quantity 0"
  have old: "?old = ex_state_quantity"
    by (simp add: state_at_def ex_db_quantity_def ex_db_def)
  have a: "apply_kwargs ex_env ex_state_quantity
      [(''selected_quantity'', ?q), (''current_step'', PStr (u ''confirm''))] =
      Inr (ex_state_quantity\<lparr>selected_quantity := ?q, current_step := PStr (u ''confirm'')\<rparr>)"
    by (simp add: apply_kwarg_pair state_attrs_def setattr_def)
  have c: "commit_refresh ex_env rows ex_state_quantity
      (ex_state_quantity\<lparr>selected_quantity := ?q, current_step := PStr (u ''confirm''),
         updated_at := PDatetime 9\<rparr>) = Inl OverflowError" for rows
    by (simp add: commit_refresh_def state_attrs_def commit_column_def column_value_def
        getattr_def store_value_def column_type_def valid_text_def u_def setattr_def
        ex_state_quantity_def ex_state_def)
  have now: "utcnow ex_env = 9" by (simp add: ex_env_def)
  have up: "update_state ex_env ex_db_quantity (u ''+100'')
      [(''selected_quantity'', ?q), (''current_step'', PStr (u ''confirm''))] 9 =
      (ex_db_quantity, Inl OverflowError)"
    by (simp add: update_state_def ex_db_quantity_state old a c del: apply_kwargs.simps)
  have s: "state_of ex_db_quantity (u ''+100'') = Some ex_state_quantity"
    by (simp add: state_of_def ex_db_quantity_def ex_db_def ex_state_quantity_def ex_state_def)
  show ?thesis
    by (simp add: merge_quantity_def py_get_def dict_get_def now up s)
       (simp add: ex_state_quantity_def)
qed

section \<open>The decision of the management\<close>




section \<open>The order that materialization creates\<close>

text \<open>
  C8. For every database and conversation state, the order that
  \<open>create_order_from_state\<close> creates has status PendingApproval and no total amount,
  and it is the row appended to the table of orders. The total amount stays unset until
  a decision of the management sets it: a turn of the conversation only appends rows to
  the table of orders and changes no row in it; marking an order paid and a decision
  without capacity leave every total amount as it was; a decision with capacity sets
  the total amount of the order to the approved amount.
\<close>

theorem new_order_pending_without_total:
  "status (snd (create_order_from_state db st now)) = u ''PendingApproval'' \<and>
   total_amount (snd (create_order_from_state db st now)) = None \<and>
   orders (fst (create_order_from_state db st now)) =
     orders db @ [snd (create_order_from_state db st now)] \<and>
   (\<exists>new. orders (fst (process_message_task e msg phone db1)) = orders db1 @ new) \<and>
   (mark_order_paid db1 oid t = Inr (db2, ord2) \<longrightarrow>
      map total_amount (orders db2) = map total_amount (orders db1)) \<and>
   (set_management_decision db1 oid False amount days = Inr (db3, ord3) \<longrightarrow>
      map total_amount (orders db3) = map total_amount (orders db1)) \<and>
   (set_management_decision db1 oid True amount days = Inr (db4, ord4) \<longrightarrow>
      total_amount ord4 = amount)"
proof -
  have a: "status (snd (create_order_from_state db st now)) = u ''PendingApproval'' \<and>
      total_amount (snd (create_order_from_state db st now)) = None"
    by (simp add: create_order_from_state_def Let_def)
  have p: "mark_order_paid db1 oid t = Inr (db2, ord2) \<longrightarrow>
      map total_amount (orders db2) = map total_amount (orders db1)"
    by (auto simp: mark_order_paid_def Let_def map_update_same order_index_valid
        split: option.splits)
  have r: "set_management_decision db1 oid False amount days = Inr (db3, ord3) \<longrightarrow>
      map total_amount (orders db3) = map total_amount (orders db1)"
    by (auto simp: set_management_decision_def Let_def map_update_same order_index_valid
        split: option.splits)
  have s: "set_management_decision db1 oid True amount days = Inr (db4, ord4) \<longrightarrow>
      total_amount ord4 = amount"
    by (auto simp: set_management_decision_def Let_def split: option.splits)
  from a p r s create_order_from_state_orders [of db st now]
    process_message_task_orders [of e msg phone db1]
  show ?thesis by blast
qed

text \<open>The order made from the state of the example; and the pending order of the
  example, marked paid, decided without capacity, and decided with capacity for 125.5.\<close>

theorem new_order_pending_without_total_witness:
  "status (snd (create_order_from_state ex_db ex_state 9)) = u ''PendingApproval'' \<and>
   total_amount (snd (create_order_from_state ex_db ex_state 9)) = None \<and>
   (\<exists>d ord. mark_order_paid ex_db 1 5 = Inr (d, ord) \<and>
      map total_amount (orders d) = map total_amount (orders ex_db)) \<and>
   (\<exists>d ord. set_management_decision ex_db 1 False None None = Inr (d, ord) \<and>
      map total_amount (orders d) = map total_amount (orders ex_db)) \<and>
   (\<exists>d ord. set_management_decision ex_db 1 True (Some 125.5) (Some 10) = Inr (d, ord) \<and>
      total_amount ord = Some 125.5)"
proof -
  have i: "order_index ex_db 1 = Some 0"
    by (simp add: order_index_def ex_db_def ex_order_def)
  obtain d2 o2 where m: "mark_order_paid ex_db 1 5 = Inr (d2, o2)"
    by (simp add: mark_order_paid_def i Let_def)
  obtain d3 o3 where r: "set_management_decision ex_db 1 False None None = Inr (d3, o3)"
    by (simp add: set_management_decision_def i Let_def)
  obtain d4 o4 where a:
    "set_management_decision ex_db 1 True (Some 125.5) (Some 10) = Inr (d4, o4)"
    by (simp add: set_management_decision_def i Let_def)
  from new_order_pending_without_total
         [of ex_db ex_state 9 ex_env "u ''hello''" "u ''+100''" ex_db 1 5 d2 o2 None None d3 o3]
       new_order_pending_without_total
         [of ex_db ex_state 9 ex_env "u ''hello''" "u ''+100''" ex_db 1 5 d2 o2
             "Some 125.5" "Some 10" d3 o3 d4 o4]
       m r a
  show ?thesis by auto
qed

section \<open>Failures of the text interpretation\<close>

text \<open>
  C9. \<open>analyze_message\<close> returns a value for every message; whenever its body
  fails, and in particular whenever the call to the chat service fails, the value is the
  fixed response text with the extracted fields whose intent is "error".
\<close>

theorem analyze_message_absorbs_failure:
  "(analyze_body e message history = Inl err \<longrightarrow>
      analyze_message e message history =
        \<lparr>response = error_response_text, data = error_data\<rparr>) \<and>
   (chat_completion e (case history of None \<Rightarrow> [] | Some h \<Rightarrow> h) message = Inl err \<longrightarrow>
      analyze_body e message history = Inl err) \<and>
   py_get error_data (u ''intent'') = Inr (PStr (u ''error''))"
  by (simp add: analyze_message_def analyze_body_def error_data_def py_get_def dict_get_def)

text \<open>With the chat service down, the message "hello" gets the fixed reply.\<close>

theorem analyze_message_absorbs_failure_witness:
  "chat_completion ex_env_down [] (u ''hello'') = Inl ApiError \<and>
   analyze_message ex_env_down (u ''hello'') None =
     \<lparr>response = error_response_text, data = PDict [(u ''intent'', PStr (u ''error''))]\<rparr>"
proof -
  have c: "chat_completion ex_env_down (case None of None \<Rightarrow> [] | Some h \<Rightarrow> h) (u ''hello'') = Inl ApiError"
    by (simp add: ex_env_down_def)
  from analyze_message_absorbs_failure [of ex_env_down "u ''hello''" None ApiError] c
  show ?thesis by (simp add: error_data_def)
qed


section \<open>Partial updates of a conversation state\<close>



end
